theory Spec2Isabelle
  imports Main "HOL-Library.Word"
begin

section \<open>Python values\<close>

text \<open>
  The values that travel through the logging utilities and the model constructors are
  Python objects of the JSON kind. A \<open>dict\<close> is an association list in insertion order
  (a Python \<open>dict\<close> keeps that order; its keys are distinct, which no definition below
  relies on). A \<open>float\<close> is its 64-bit pattern: nothing here computes with floats.
  A \<open>str\<close> is a \<open>string\<close> whose characters are the code points below 256.
\<close>

type_synonym pyfloat = "64 word"

datatype pyval =
    PNone
  | PBool bool
  | PInt int
  | PFloat pyfloat
  | PStr string
  | PList "pyval list"
  | PDict "(string \<times> pyval) list"

type_synonym pydict = "(string \<times> pyval) list"

text \<open>An attribute of an object is bound to a value or missing (reading it raises).\<close>

datatype 'a attr = NoAttr | Attr 'a

text \<open>\<open>sep.join(xs)\<close> on a list of strings.\<close>

fun join :: "string \<Rightarrow> string list \<Rightarrow> string" where
  "join sep [] = []"
| "join sep [x] = x"
| "join sep (x # y # ys) = x @ sep @ join sep (y # ys)"

section \<open>exceptions.py\<close>

text \<open>
  The classes of the taxonomy, and what a \<open>raise\<close> can carry. The instances of
  \<open>Exception\<close>: an \<open>LLMError\<close> of some class with its message, provider, code and raw
  error; the built-in exceptions the code raises or runs into (\<open>ValueError\<close> with the
  list it is given, \<open>AttributeError\<close> with the name of the attribute that is missing,
  \<open>NotImplementedError\<close> and \<open>TypeError\<close> with their message); pydantic's own validation
  error with its list of problems; and any other instance of \<open>Exception\<close> (class name
  and message), such as the errors of the transport. And the instances of
  \<open>BaseException\<close> that are no \<open>Exception\<close> (class name and message):
  \<open>asyncio.CancelledError\<close>, \<open>KeyboardInterrupt\<close>, \<open>SystemExit\<close>.
\<close>

datatype llm_class =
    LLMError
  | ProviderError
  | ValidationError
  | UnsupportedOperationError
  | ConfigurationError
  | RateLimitError
  | AuthenticationError
  | QuotaExceededError
  | InvalidRequestError
  | ContextLengthExceededError

datatype exn =
    LLM llm_class string string "string option" "exn option"
  | ValueError "string list"
  | NotImplementedError string
  | TypeError string
  | AttributeError string
  | PydanticValidationError "string list"
  | OtherException string string
  | OtherBaseException string string

text \<open>The class statements: every class derives from \<open>LLMError\<close>, five from \<open>ProviderError\<close>.\<close>

fun issubclass :: "llm_class \<Rightarrow> llm_class \<Rightarrow> bool" where
  "issubclass c LLMError = True"
| "issubclass c ProviderError =
     (c \<in> {ProviderError, RateLimitError, AuthenticationError, QuotaExceededError,
            InvalidRequestError, ContextLengthExceededError})"
| "issubclass c d = (c = d)"

fun isinstance :: "exn \<Rightarrow> llm_class \<Rightarrow> bool" where
  "isinstance (LLM c msg prov code raw) d = issubclass c d"
| "isinstance _ d = False"

text \<open>\<open>isinstance(e, Exception)\<close>: what a clause \<open>except Exception\<close> catches.\<close>

fun is_Exception :: "exn \<Rightarrow> bool" where
  "is_Exception (OtherBaseException c msg) = False"
| "is_Exception _ = True"

section \<open>models/base.py\<close>

text \<open>
  The universal model: each pydantic class is a record of its fields, each enumeration a
  datatype of its members. A field whose name is a keyword here carries a prime
  (\<open>text'\<close>, \<open>id'\<close>, \<open>functions'\<close>, \<open>done'\<close>). \<open>FunctionParameter\<close> refers to itself, so it
  is a datatype, with its fields in the order of the class body. The fields \<open>object\<close> of
  \<open>EmbeddingData\<close> and \<open>EmbeddingResponse\<close>, which have one possible value, are left out,
  and so is the second \<open>LLMError\<close> class of this file, which repeats the one of
  \<open>exceptions.py\<close>.
\<close>

datatype ContentType = TEXT | IMAGE | PDF | VIDEO | AUDIO


datatype Role = SYSTEM | USER | ASSISTANT | FUNCTION

record MediaSource =
  type :: ContentType
  mime_type :: string
  data :: "string option"
  url :: "string option"
  path :: "string option"

record Content =
  type :: ContentType
  text' :: "string option"
  media :: "MediaSource option"

datatype FunctionParameter =
  FunctionParameter string "string option" "string list option" "pydict option"
    "(string \<times> FunctionParameter) list option" "string list option"

record Function =
  name :: string
  description :: string
  parameters :: FunctionParameter

record FunctionCall =
  name :: string
  arguments :: pydict
  response :: "pydict option"

record Message =
  role :: Role
  content :: "Content list"
  name :: "string option"
  function_call :: "FunctionCall option"

datatype ResponseFormat = Text_format | Json_format

record GenerationConfig =
  temperature :: "pyfloat option"
  top_p :: "pyfloat option"
  top_k :: "int option"
  max_tokens :: "int option"
  stop :: "string list option"
  stream :: bool
  functions' :: "Function list option"
  force_function :: "string option"
  response_format :: ResponseFormat

definition GenerationConfig_default :: GenerationConfig where
  "GenerationConfig_default =
     \<lparr>temperature = None, top_p = None, top_k = None, max_tokens = None, stop = None,
      stream = False, functions' = None, force_function = None,
      response_format = Text_format\<rparr>"

record ChatRequest =
  model :: string
  messages :: "Message list"
  config :: GenerationConfig

record Usage =
  prompt_tokens :: "int option"
  completion_tokens :: "int option"
  total_tokens :: "int option"
  audio_duration :: "pyfloat option"
  total_dimensions :: "int option"

record ResponseMetadata =
  model :: string
  usage :: "Usage option"
  finish_reason :: "string option"
  raw_response :: "pydict option"

record ChatResponse =
  id' :: string
  content :: "Content list"
  function_calls :: "FunctionCall list option"
  metadata :: ResponseMetadata

text \<open>The chunk of a streamed response. No function of the repository consumes it.\<close>

record ChatStreamResponse =
  id' :: string
  delta :: "Content + FunctionCall"
  metadata :: "ResponseMetadata option"
  done' :: bool

datatype EncodingFormat = Float_format | Base64_format

record EmbeddingRequest =
  model :: string
  input :: "(string + Content) list"
  encoding_format :: EncodingFormat

record EmbeddingData =
  index :: int
  embedding :: "pyfloat list"

record EmbeddingResponse =
  id' :: string
  data :: "EmbeddingData list"
  model :: string
  usage :: Usage

datatype Voice = MALE_1 | MALE_2 | FEMALE_1 | FEMALE_2 | NEUTRAL

datatype AudioFormat = MP3 | WAV | OGG | FLAC

record SpeechRequest =
  model :: string
  input :: string
  voice :: Voice
  format :: AudioFormat
  speed :: pyfloat
  pitch :: "pyfloat option"
  volume :: "pyfloat option"

record SpeechResponse =
  id' :: string
  audio :: "8 word list"
  duration :: pyfloat
  format :: AudioFormat
  metadata :: ResponseMetadata

subsection \<open>Constructing a MediaSource\<close>

text \<open>
  \<open>MediaSource(**kwargs)\<close> is pydantic's validation of the keyword arguments against the
  class body: \<open>type\<close> is required and is a \<open>ContentType\<close> (a member, which is the string
  of its value), \<open>mime_type\<close> is required and a string, \<open>data\<close>, \<open>url\<close> and \<open>path\<close>
  are a string or \<open>None\<close> and default to \<open>None\<close>, and \<open>extra = forbid\<close> refuses any
  other keyword. The class body has no validator: nothing else is checked. Every
  problem found is reported, in the order of the fields.
\<close>

fun ContentType_of :: "pyval \<Rightarrow> ContentType option" where
  "ContentType_of (PStr s) =
     (if s = ''text'' then Some TEXT
      else if s = ''image'' then Some IMAGE
      else if s = ''pdf'' then Some PDF
      else if s = ''video'' then Some VIDEO
      else if s = ''audio'' then Some AUDIO
      else None)"
| "ContentType_of _ = None"

fun required_str :: "string \<Rightarrow> pyval option \<Rightarrow> string list + string" where
  "required_str field None = Inl [field @ '': Field required'']"
| "required_str field (Some (PStr s)) = Inr s"
| "required_str field (Some _) = Inl [field @ '': Input should be a valid string'']"

fun optional_str :: "string \<Rightarrow> pyval option \<Rightarrow> string list + string option" where
  "optional_str field None = Inr None"
| "optional_str field (Some PNone) = Inr None"
| "optional_str field (Some (PStr s)) = Inr (Some s)"
| "optional_str field (Some _) = Inl [field @ '': Input should be a valid string'']"

definition required_ContentType :: "string \<Rightarrow> pyval option \<Rightarrow> string list + ContentType" where
  "required_ContentType field v =
     (case v of
        None \<Rightarrow> Inl [field @ '': Field required'']
      | Some x \<Rightarrow>
          (case ContentType_of x of
             None \<Rightarrow> Inl [field @ '': Input should be text, image, pdf, video or audio'']
           | Some t \<Rightarrow> Inr t))"

definition problems :: "string list + 'a \<Rightarrow> string list" where
  "problems r = (case r of Inl es \<Rightarrow> es | Inr _ \<Rightarrow> [])"

definition MediaSource_fields :: "string list" where
  "MediaSource_fields = [''type'', ''mime_type'', ''data'', ''url'', ''path'']"

definition extra_forbidden :: "string list \<Rightarrow> pydict \<Rightarrow> string list" where
  "extra_forbidden allowed kwargs =
     map (\<lambda>k. k @ '': Extra inputs are not permitted'')
       (filter (\<lambda>k. k \<notin> set allowed) (map fst kwargs))"

definition MediaSource_init :: "pydict \<Rightarrow> exn + MediaSource" where
  "MediaSource_init kwargs =
     (let t = required_ContentType ''type'' (map_of kwargs ''type'');
          m = required_str ''mime_type'' (map_of kwargs ''mime_type'');
          d = optional_str ''data'' (map_of kwargs ''data'');
          u = optional_str ''url'' (map_of kwargs ''url'');
          p = optional_str ''path'' (map_of kwargs ''path'');
          errors = problems t @ problems m @ problems d @ problems u @ problems p
                   @ extra_forbidden MediaSource_fields kwargs
      in case (t, m, d, u, p) of
           (Inr t', Inr m', Inr d', Inr u', Inr p') \<Rightarrow>
             if errors = [] then
               Inr \<lparr>MediaSource.type = t', mime_type = m', data = d', url = u', path = p'\<rparr>
             else Inl (PydanticValidationError errors)
         | _ \<Rightarrow> Inl (PydanticValidationError errors))"


section \<open>models/capabilities.py and models/provider.py\<close>

text \<open>
  An adapter is the object bound to a dispatcher as \<open>provider\<close>. The dispatchers call its
  validator, its two converters and \<open>convert_error\<close> (declared in
  \<open>models/provider.py\<close>), so these are its fields: each is a Python call and may raise,
  hence returns \<open>exn + _\<close>. The native request and the raw response are of any type
  (\<open>'n\<close>, \<open>'r\<close>).
\<close>

record provider_base =
  convert_error :: "exn \<Rightarrow> exn + exn"

record ('n, 'r) ChatProvider = provider_base +
  validate_chat_request :: "ChatRequest \<Rightarrow> exn + string list"
  convert_chat_request :: "ChatRequest \<Rightarrow> exn + 'n"
  convert_chat_response :: "'r \<Rightarrow> ChatRequest \<Rightarrow> exn + ChatResponse"

record ('n, 'r) EmbeddingProvider = provider_base +
  validate_embedding_request :: "EmbeddingRequest \<Rightarrow> exn + string list"
  convert_embedding_request :: "EmbeddingRequest \<Rightarrow> exn + 'n"
  convert_embedding_response :: "'r \<Rightarrow> EmbeddingRequest \<Rightarrow> exn + EmbeddingResponse"

record ('n, 'r) SpeechProvider = provider_base +
  validate_speech_request :: "SpeechRequest \<Rightarrow> exn + string list"
  convert_speech_request :: "SpeechRequest \<Rightarrow> exn + 'n"
  convert_speech_response :: "'r \<Rightarrow> SpeechRequest \<Rightarrow> exn + SpeechResponse"

text \<open>
  \<open>ChatProvider\<close>, \<open>EmbeddingProvider\<close> and \<open>SpeechProvider\<close> are classes
  \<open>typing.Protocol\<close> that are not declared \<open>runtime_checkable\<close>. The check
  \<open>isinstance(provider, capabilities.XProvider)\<close> of \<open>base_new.py\<close> and \<open>gemini.py\<close>
  against such a class never returns: it raises \<open>TypeError\<close>, whatever the object.
\<close>

definition isinstance_Protocol :: "'p \<Rightarrow> exn + bool" where
  "isinstance_Protocol provider' =
     Inl (TypeError
       ''Instance and class checks can only be used with @runtime_checkable protocols'')"

section \<open>utils/logging.py\<close>

text \<open>
  \<open>str.lower()\<close> on code points below 256: the letters A to Z and the upper-case
  letters of Latin-1 (192 to 222, without the multiplication sign 215) move up by 32,
  which sets the bit of weight 32; every other code point is left alone.
\<close>

definition lower_char :: "char \<Rightarrow> char" where
  "lower_char c =
     (let n = (of_char c :: nat)
      in if (65 \<le> n \<and> n \<le> 90) \<or> (192 \<le> n \<and> n \<le> 222 \<and> n \<noteq> 215)
         then (case c of Char b0 b1 b2 b3 b4 b5 b6 b7 \<Rightarrow> Char b0 b1 b2 b3 b4 True b6 b7)
         else c)"

definition lower :: "string \<Rightarrow> string" where
  "lower s = map lower_char s"

definition SENSITIVE_FIELDS :: "string set" where
  "SENSITIVE_FIELDS = {''api_key'', ''key'', ''token'', ''password'', ''secret''}"

text \<open>
  \<open>_mask_dict\<close> is the dict comprehension
  \<^verbatim>\<open>{k: '***' if k.lower() in SENSITIVE_FIELDS else _mask_dict(v) if isinstance(v, dict) else v
    for k, v in d.items()}\<close>:
  one entry out for each entry in, under the same key.
\<close>

fun mask_dict :: "pydict \<Rightarrow> pydict" where
  "mask_dict [] = []"
| "mask_dict ((k, v) # d) =
     (k, if lower k \<in> SENSITIVE_FIELDS then PStr ''***''
         else (case v of PDict d' \<Rightarrow> PDict (mask_dict d') | _ \<Rightarrow> v)) # mask_dict d"

definition mask_sensitive_data :: "pydict \<Rightarrow> pydict" where
  "mask_sensitive_data data' = mask_dict data'"

text \<open>
  To speak about nesting depth: \<open>subscript v ks\<close> is the Python expression
  \<open>v[k1][k2]...[kn]\<close> through dicts only, \<open>None\<close> where a key is missing or the value
  reached is not a dict.
\<close>

fun subscript :: "pyval \<Rightarrow> string list \<Rightarrow> pyval option" where
  "subscript v [] = Some v"
| "subscript (PDict d) (k # ks) =
     (case map_of d k of None \<Rightarrow> None | Some v \<Rightarrow> subscript v ks)"
| "subscript _ (k # ks) = None"

fun is_dict :: "pyval \<Rightarrow> bool" where
  "is_dict (PDict d) = True"
| "is_dict _ = False"

text \<open>
  \<open>log_operation(provider, operation, log_request=True, log_response=True, ...)\<close> returns a
  decorator; the wrapper it puts around \<open>func\<close> is modelled by its effect on the outcome
  of the call (the log records themselves are not part of the model). Inside the
  wrapper the names \<open>log_request\<close> and \<open>log_response\<close> are the parameters of
  \<open>log_operation\<close>, which are booleans, not the module's functions of the same names:
  \<^item> \<open>if log_request and kwargs.get('request'): log_request(...)\<close> calls a \<open>bool\<close> when the
    request (a pydantic object, hence true) is passed by keyword;
  \<^item> \<open>if log_response and response: log_response(...)\<close> calls a \<open>bool\<close> when \<open>func\<close>
    returned a response (a pydantic object, hence true).
  Calling a \<open>bool\<close> raises \<open>TypeError\<close>. \<open>RequestLogger.__exit__\<close> returns \<open>None\<close>, so an
  exception raised inside the \<open>with\<close> block leaves the wrapper as it is.
\<close>

datatype call_style = Positional | Keyword

definition log_operation ::
  "bool \<Rightarrow> bool \<Rightarrow> call_style \<Rightarrow> ('q \<Rightarrow> 'ev list \<times> (exn + 'a)) \<Rightarrow> 'q
     \<Rightarrow> 'ev list \<times> (exn + 'a)" where
  "log_operation log_request log_response style func request =
     (if log_request \<and> style = Keyword then
        ([], Inl (TypeError ''bool object is not callable''))
      else
        (case func request of
           (tr, Inl e) \<Rightarrow> (tr, Inl e)
         | (tr, Inr response') \<Rightarrow>
             if log_response then (tr, Inl (TypeError ''bool object is not callable''))
             else (tr, Inr response')))"

section \<open>The transport collaborator\<close>

text \<open>
  \<open>utils.fetch.make_request\<close> is not part of the repository: it is a parameter of every
  dispatcher below, a function from the keyword arguments of the call to the raw
  response or the exception raised. A run of a dispatcher returns, with its outcome,
  the calls it made to the adapter and to the transport, in order.
\<close>

record 'n make_request =
  url :: string
  method' :: string
  headers :: "(string \<times> string) list"
  params :: "(string \<times> string option) list option"
  body :: 'n
  model :: string

type_synonym ('n, 'r) fetch = "'n make_request \<Rightarrow> exn + 'r"

datatype ('q, 'n, 'r) event =
    Validate 'q
  | ConvertRequest 'q
  | Transport "'n make_request"
  | ConvertResponse 'r 'q
  | ConvertError exn

section \<open>repositories/base.py\<close>

text \<open>
  A repository object. What its class supplies: \<open>base_url\<close>, \<open>provider_name\<close>, the
  method \<open>_get_headers\<close> (which may read \<open>self.api_key\<close>, so it is a function of that
  attribute) and the response model class, by its name; the dispatchers read them from
  the subclass they run in. What its constructor binds: \<open>api_key\<close> (a string or \<open>None\<close>)
  and \<open>provider\<close>.
\<close>

record RepositoryClass =
  base_url :: string
  provider_name :: string
  get_headers :: "string option attr \<Rightarrow> exn + (string \<times> string) list"
  response_model :: string

record 'p Repository = RepositoryClass +
  api_key :: "string option attr"
  provider :: 'p

text \<open>\<open>BaseLLMRepository._get_headers\<close>, for a class that does not override it.\<close>

definition BaseLLMRepository_get_headers ::
  "string \<Rightarrow> string option attr \<Rightarrow> exn + (string \<times> string) list" where
  "BaseLLMRepository_get_headers provider_name' k =
     Inl (NotImplementedError (''Headers not implemented for '' @ provider_name'))"

text \<open>\<open>not self.api_key\<close>, for a bound attribute.\<close>

fun falsy :: "string option \<Rightarrow> bool" where
  "falsy None = True"
| "falsy (Some s) = (s = [])"

definition validate_configuration :: "('p, 'z) Repository_scheme \<Rightarrow> exn + unit" where
  "validate_configuration self =
     (case api_key self of
        NoAttr \<Rightarrow> Inl (AttributeError ''api_key'')
      | Attr k \<Rightarrow>
          if falsy k then
            Inl (LLM ConfigurationError (''API key not configured for '' @ provider_name self)
                   (provider_name self) None None)
          else Inr ())"

text \<open>\<open>ChatRepository.__init__(self, provider)\<close> of \<open>base.py\<close>: one assignment.\<close>

definition base_ChatRepository_init ::
  "RepositoryClass \<Rightarrow> ('n, 'r) ChatProvider \<Rightarrow> ('n, 'r) ChatProvider Repository" where
  "base_ChatRepository_init cls provider' =
     \<lparr>base_url = base_url cls, provider_name = provider_name cls,
      get_headers = get_headers cls, response_model = response_model cls,
      api_key = NoAttr, provider = provider'\<rparr>"



text \<open>
  \<open>except Exception as e: raise await self.provider.convert_error(e)\<close>: the exception
  that leaves is the one \<open>convert_error\<close> returns, or the one it raises.
\<close>

definition converted :: "'p provider_base_scheme \<Rightarrow> exn \<Rightarrow> exn" where
  "converted p e = (case convert_error p e of Inl x \<Rightarrow> x | Inr m \<Rightarrow> m)"

definition raise_converted ::
  "('q, 'n, 'r) event list \<Rightarrow> 'p provider_base_scheme \<Rightarrow> exn
     \<Rightarrow> ('q, 'n, 'r) event list \<times> (exn + 'a)" where
  "raise_converted tr p e = (tr @ [ConvertError e], Inl (converted p e))"

text \<open>
  The clause catches the instances of \<open>Exception\<close> only: anything else that was raised
  in the \<open>try\<close> block leaves as it is, and \<open>convert_error\<close> is not called.
\<close>

definition except_Exception ::
  "('q, 'n, 'r) event list \<Rightarrow> 'p provider_base_scheme \<Rightarrow> exn
     \<Rightarrow> ('q, 'n, 'r) event list \<times> (exn + 'a)" where
  "except_Exception tr p e = (if is_Exception e then raise_converted tr p e else (tr, Inl e))"

text \<open>
  The \<open>try\<close> block that ends each dispatcher of \<open>base.py\<close> and of \<open>base_new.py\<close> (the
  two files have the same text there): the arguments of \<open>make_request\<close> are evaluated
  (\<open>self._get_headers()\<close> may raise), the transport is called, the response is
  converted; an exception of any of the three goes to the \<open>except\<close> clause.
\<close>

definition ChatRepository_try ::
  "('n, 'r) ChatProvider Repository \<Rightarrow> ('n, 'r) fetch \<Rightarrow> ChatRequest \<Rightarrow> 'n
     \<Rightarrow> (ChatRequest, 'n, 'r) event list \<times> (exn + ChatResponse)" where
  "ChatRepository_try self fetch request provider_request =
     (case get_headers self (api_key self) of
        Inl e \<Rightarrow> except_Exception [] (provider self) e
      | Inr hs \<Rightarrow>
          (let call = \<lparr>url = base_url self @ ''/v1/chat/completions'',
                         method' = ''POST'', headers = hs, params = None,
                         body = provider_request, model = response_model self\<rparr>
             in case fetch call of
                  Inl e \<Rightarrow> except_Exception [Transport call] (provider self) e
                | Inr raw \<Rightarrow>
                    (case convert_chat_response (provider self) raw request of
                       Inl e \<Rightarrow>
                         except_Exception [Transport call, ConvertResponse raw request]
                           (provider self) e
                     | Inr response' \<Rightarrow>
                         ([Transport call, ConvertResponse raw request], Inr response'))))"

definition EmbeddingRepository_try ::
  "('n, 'r) EmbeddingProvider Repository \<Rightarrow> ('n, 'r) fetch \<Rightarrow> EmbeddingRequest \<Rightarrow> 'n
     \<Rightarrow> (EmbeddingRequest, 'n, 'r) event list \<times> (exn + EmbeddingResponse)" where
  "EmbeddingRepository_try self fetch request provider_request =
     (case get_headers self (api_key self) of
        Inl e \<Rightarrow> except_Exception [] (provider self) e
      | Inr hs \<Rightarrow>
          (let call = \<lparr>url = base_url self @ ''/v1/embeddings'',
                         method' = ''POST'', headers = hs, params = None,
                         body = provider_request, model = response_model self\<rparr>
             in case fetch call of
                  Inl e \<Rightarrow> except_Exception [Transport call] (provider self) e
                | Inr raw \<Rightarrow>
                    (case convert_embedding_response (provider self) raw request of
                       Inl e \<Rightarrow>
                         except_Exception [Transport call, ConvertResponse raw request]
                           (provider self) e
                     | Inr response' \<Rightarrow>
                         ([Transport call, ConvertResponse raw request], Inr response'))))"

definition SpeechRepository_try ::
  "('n, 'r) SpeechProvider Repository \<Rightarrow> ('n, 'r) fetch \<Rightarrow> SpeechRequest \<Rightarrow> 'n
     \<Rightarrow> (SpeechRequest, 'n, 'r) event list \<times> (exn + SpeechResponse)" where
  "SpeechRepository_try self fetch request provider_request =
     (case get_headers self (api_key self) of
        Inl e \<Rightarrow> except_Exception [] (provider self) e
      | Inr hs \<Rightarrow>
          (let call = \<lparr>url = base_url self @ ''/v1/audio/speech'',
                         method' = ''POST'', headers = hs, params = None,
                         body = provider_request, model = response_model self\<rparr>
             in case fetch call of
                  Inl e \<Rightarrow> except_Exception [Transport call] (provider self) e
                | Inr raw \<Rightarrow>
                    (case convert_speech_response (provider self) raw request of
                       Inl e \<Rightarrow>
                         except_Exception [Transport call, ConvertResponse raw request]
                           (provider self) e
                     | Inr response' \<Rightarrow>
                         ([Transport call, ConvertResponse raw request], Inr response'))))"

text \<open>The three dispatchers of \<open>base.py\<close>.\<close>

definition base_ChatRepository_complete ::
  "('n, 'r) ChatProvider Repository \<Rightarrow> ('n, 'r) fetch \<Rightarrow> ChatRequest
     \<Rightarrow> (ChatRequest, 'n, 'r) event list \<times> (exn + ChatResponse)" where
  "base_ChatRepository_complete self fetch request =
     (case validate_chat_request (provider self) request of
        Inl e \<Rightarrow> ([Validate request], Inl e)
      | Inr errors \<Rightarrow>
          if errors \<noteq> [] then ([Validate request], Inl (ValueError errors))
          else
            (case convert_chat_request (provider self) request of
               Inl e \<Rightarrow> ([Validate request, ConvertRequest request], Inl e)
             | Inr provider_request \<Rightarrow>
                 (case ChatRepository_try self fetch request provider_request of
                    (tr, outcome) \<Rightarrow> ([Validate request, ConvertRequest request] @ tr, outcome))))"

definition base_EmbeddingRepository_embed ::
  "('n, 'r) EmbeddingProvider Repository \<Rightarrow> ('n, 'r) fetch \<Rightarrow> EmbeddingRequest
     \<Rightarrow> (EmbeddingRequest, 'n, 'r) event list \<times> (exn + EmbeddingResponse)" where
  "base_EmbeddingRepository_embed self fetch request =
     (case validate_embedding_request (provider self) request of
        Inl e \<Rightarrow> ([Validate request], Inl e)
      | Inr errors \<Rightarrow>
          if errors \<noteq> [] then ([Validate request], Inl (ValueError errors))
          else
            (case convert_embedding_request (provider self) request of
               Inl e \<Rightarrow> ([Validate request, ConvertRequest request], Inl e)
             | Inr provider_request \<Rightarrow>
                 (case EmbeddingRepository_try self fetch request provider_request of
                    (tr, outcome) \<Rightarrow> ([Validate request, ConvertRequest request] @ tr, outcome))))"

definition base_SpeechRepository_synthesize ::
  "('n, 'r) SpeechProvider Repository \<Rightarrow> ('n, 'r) fetch \<Rightarrow> SpeechRequest
     \<Rightarrow> (SpeechRequest, 'n, 'r) event list \<times> (exn + SpeechResponse)" where
  "base_SpeechRepository_synthesize self fetch request =
     (case validate_speech_request (provider self) request of
        Inl e \<Rightarrow> ([Validate request], Inl e)
      | Inr errors \<Rightarrow>
          if errors \<noteq> [] then ([Validate request], Inl (ValueError errors))
          else
            (case convert_speech_request (provider self) request of
               Inl e \<Rightarrow> ([Validate request, ConvertRequest request], Inl e)
             | Inr provider_request \<Rightarrow>
                 (case SpeechRepository_try self fetch request provider_request of
                    (tr, outcome) \<Rightarrow> ([Validate request, ConvertRequest request] @ tr, outcome))))"

section \<open>repositories/base_new.py\<close>

text \<open>
  \<open>BaseLLMRepository\<close> is the same class as in \<open>base.py\<close>. Here the constructors call
  \<open>BaseLLMRepository.__init__\<close>, which binds \<open>api_key\<close> to the argument if it is true,
  and else to what \<open>_get_api_key()\<close> returns or raises (a parameter: it reads the
  settings).
\<close>

definition base_new_ChatRepository_init ::
  "RepositoryClass \<Rightarrow> exn + string \<Rightarrow> ('n, 'r) ChatProvider \<Rightarrow> string option
     \<Rightarrow> exn + ('n, 'r) ChatProvider Repository" where
  "base_new_ChatRepository_init cls get_api_key provider' api_key' =
     (case (if falsy api_key' then map_sum (\<lambda>e. e) Some get_api_key else Inr api_key') of
        Inl e \<Rightarrow> Inl e
      | Inr k \<Rightarrow>
          Inr \<lparr>base_url = base_url cls, provider_name = provider_name cls,
               get_headers = get_headers cls, response_model = response_model cls,
               api_key = Attr k, provider = provider'\<rparr>)"

text \<open>
  For each of the three dispatchers: the statements that follow the capability check,
  the body (the configuration check, the capability check, then those statements), and
  the dispatcher itself, which is the body under the decorator
  \<open>log_operation(provider="provider_name", operation=...)\<close>, with \<open>log_request\<close> and
  \<open>log_response\<close> left at \<open>True\<close>.
\<close>

definition base_new_ChatRepository_complete_after_check ::
  "('n, 'r) ChatProvider Repository \<Rightarrow> ('n, 'r) fetch \<Rightarrow> ChatRequest
     \<Rightarrow> (ChatRequest, 'n, 'r) event list \<times> (exn + ChatResponse)" where
  "base_new_ChatRepository_complete_after_check self fetch request =
     (case validate_chat_request (provider self) request of
        Inl e \<Rightarrow> ([Validate request], Inl e)
      | Inr errors \<Rightarrow>
          if errors \<noteq> [] then
            ([Validate request],
             Inl (LLM ValidationError (''Invalid request: '' @ join '', '' errors)
                    (provider_name self) None None))
          else
            (case convert_chat_request (provider self) request of
               Inl e \<Rightarrow> ([Validate request, ConvertRequest request], Inl e)
             | Inr provider_request \<Rightarrow>
                 (case ChatRepository_try self fetch request provider_request of
                    (tr, outcome) \<Rightarrow> ([Validate request, ConvertRequest request] @ tr, outcome))))"

definition base_new_ChatRepository_complete_body ::
  "('n, 'r) ChatProvider Repository \<Rightarrow> ('n, 'r) fetch \<Rightarrow> ChatRequest
     \<Rightarrow> (ChatRequest, 'n, 'r) event list \<times> (exn + ChatResponse)" where
  "base_new_ChatRepository_complete_body self fetch request =
     (case validate_configuration self of
        Inl e \<Rightarrow> ([], Inl e)
      | Inr _ \<Rightarrow>
          (case isinstance_Protocol (provider self) of
             Inl e \<Rightarrow> ([], Inl e)
           | Inr is_provider \<Rightarrow>
               if \<not> is_provider then
                 ([], Inl (LLM UnsupportedOperationError
                             (''Chat completion not supported by '' @ provider_name self)
                             (provider_name self) None None))
               else base_new_ChatRepository_complete_after_check self fetch request))"

definition base_new_ChatRepository_complete ::
  "('n, 'r) ChatProvider Repository \<Rightarrow> call_style \<Rightarrow> ('n, 'r) fetch \<Rightarrow> ChatRequest
     \<Rightarrow> (ChatRequest, 'n, 'r) event list \<times> (exn + ChatResponse)" where
  "base_new_ChatRepository_complete self style fetch request =
     log_operation True True style (base_new_ChatRepository_complete_body self fetch) request"

definition base_new_EmbeddingRepository_embed_after_check ::
  "('n, 'r) EmbeddingProvider Repository \<Rightarrow> ('n, 'r) fetch \<Rightarrow> EmbeddingRequest
     \<Rightarrow> (EmbeddingRequest, 'n, 'r) event list \<times> (exn + EmbeddingResponse)" where
  "base_new_EmbeddingRepository_embed_after_check self fetch request =
     (case validate_embedding_request (provider self) request of
        Inl e \<Rightarrow> ([Validate request], Inl e)
      | Inr errors \<Rightarrow>
          if errors \<noteq> [] then
            ([Validate request],
             Inl (LLM ValidationError (''Invalid request: '' @ join '', '' errors)
                    (provider_name self) None None))
          else
            (case convert_embedding_request (provider self) request of
               Inl e \<Rightarrow> ([Validate request, ConvertRequest request], Inl e)
             | Inr provider_request \<Rightarrow>
                 (case EmbeddingRepository_try self fetch request provider_request of
                    (tr, outcome) \<Rightarrow> ([Validate request, ConvertRequest request] @ tr, outcome))))"

definition base_new_EmbeddingRepository_embed_body ::
  "('n, 'r) EmbeddingProvider Repository \<Rightarrow> ('n, 'r) fetch \<Rightarrow> EmbeddingRequest
     \<Rightarrow> (EmbeddingRequest, 'n, 'r) event list \<times> (exn + EmbeddingResponse)" where
  "base_new_EmbeddingRepository_embed_body self fetch request =
     (case validate_configuration self of
        Inl e \<Rightarrow> ([], Inl e)
      | Inr _ \<Rightarrow>
          (case isinstance_Protocol (provider self) of
             Inl e \<Rightarrow> ([], Inl e)
           | Inr is_provider \<Rightarrow>
               if \<not> is_provider then
                 ([], Inl (LLM UnsupportedOperationError
                             (''Embeddings not supported by '' @ provider_name self)
                             (provider_name self) None None))
               else base_new_EmbeddingRepository_embed_after_check self fetch request))"

definition base_new_EmbeddingRepository_embed ::
  "('n, 'r) EmbeddingProvider Repository \<Rightarrow> call_style \<Rightarrow> ('n, 'r) fetch \<Rightarrow> EmbeddingRequest
     \<Rightarrow> (EmbeddingRequest, 'n, 'r) event list \<times> (exn + EmbeddingResponse)" where
  "base_new_EmbeddingRepository_embed self style fetch request =
     log_operation True True style (base_new_EmbeddingRepository_embed_body self fetch) request"

definition base_new_SpeechRepository_synthesize_after_check ::
  "('n, 'r) SpeechProvider Repository \<Rightarrow> ('n, 'r) fetch \<Rightarrow> SpeechRequest
     \<Rightarrow> (SpeechRequest, 'n, 'r) event list \<times> (exn + SpeechResponse)" where
  "base_new_SpeechRepository_synthesize_after_check self fetch request =
     (case validate_speech_request (provider self) request of
        Inl e \<Rightarrow> ([Validate request], Inl e)
      | Inr errors \<Rightarrow>
          if errors \<noteq> [] then
            ([Validate request],
             Inl (LLM ValidationError (''Invalid request: '' @ join '', '' errors)
                    (provider_name self) None None))
          else
            (case convert_speech_request (provider self) request of
               Inl e \<Rightarrow> ([Validate request, ConvertRequest request], Inl e)
             | Inr provider_request \<Rightarrow>
                 (case SpeechRepository_try self fetch request provider_request of
                    (tr, outcome) \<Rightarrow> ([Validate request, ConvertRequest request] @ tr, outcome))))"

definition base_new_SpeechRepository_synthesize_body ::
  "('n, 'r) SpeechProvider Repository \<Rightarrow> ('n, 'r) fetch \<Rightarrow> SpeechRequest
     \<Rightarrow> (SpeechRequest, 'n, 'r) event list \<times> (exn + SpeechResponse)" where
  "base_new_SpeechRepository_synthesize_body self fetch request =
     (case validate_configuration self of
        Inl e \<Rightarrow> ([], Inl e)
      | Inr _ \<Rightarrow>
          (case isinstance_Protocol (provider self) of
             Inl e \<Rightarrow> ([], Inl e)
           | Inr is_provider \<Rightarrow>
               if \<not> is_provider then
                 ([], Inl (LLM UnsupportedOperationError
                             (''Speech synthesis not supported by '' @ provider_name self)
                             (provider_name self) None None))
               else base_new_SpeechRepository_synthesize_after_check self fetch request))"

definition base_new_SpeechRepository_synthesize ::
  "('n, 'r) SpeechProvider Repository \<Rightarrow> call_style \<Rightarrow> ('n, 'r) fetch \<Rightarrow> SpeechRequest
     \<Rightarrow> (SpeechRequest, 'n, 'r) event list \<times> (exn + SpeechResponse)" where
  "base_new_SpeechRepository_synthesize self style fetch request =
     log_operation True True style (base_new_SpeechRepository_synthesize_body self fetch) request"

section \<open>repositories/openai.py\<close>

text \<open>
  What \<open>OpenAIBaseMixin\<close> with \<open>OpenAIChatRepository\<close>, and with
  \<open>OpenAIEmbeddingRepository\<close>, supply to the dispatcher they inherit: the two class attributes, \<open>_get_headers\<close> (which formats \<open>self.api_key\<close> into
  the bearer token; \<open>settings.llms.openai_org_id\<close> is a parameter) and the response model.
\<close>

fun format_str :: "string option \<Rightarrow> string" where
  "format_str None = ''None''"
| "format_str (Some s) = s"

definition OpenAIBaseMixin_get_headers ::
  "string option \<Rightarrow> string option attr \<Rightarrow> exn + (string \<times> string) list" where
  "OpenAIBaseMixin_get_headers openai_org_id k =
     (case k of
        NoAttr \<Rightarrow> Inl (AttributeError ''api_key'')
      | Attr v \<Rightarrow>
          Inr [(''Authorization'', ''Bearer '' @ format_str v),
               (''Content-Type'', ''application/json''),
               (''OpenAI-Organization'', if falsy openai_org_id then [] else format_str openai_org_id)])"

definition OpenAIChatRepository_class :: "string option \<Rightarrow> RepositoryClass" where
  "OpenAIChatRepository_class openai_org_id =
     \<lparr>base_url = ''https://api.openai.com'', provider_name = ''openai'',
      get_headers = OpenAIBaseMixin_get_headers openai_org_id,
      response_model = ''ChatCompletionResponse''\<rparr>"


section \<open>repositories/gemini.py\<close>

text \<open>
  A Gemini repository object has one more attribute, \<open>version\<close>. An object of class
  \<open>GeminiChatRepository\<close> has the class attributes of \<open>GeminiBaseMixin\<close>, its
  \<open>_get_headers\<close> and the response model of the class statement; its instance attributes
  are arbitrary. The two dispatchers of the file override the inherited ones; they are
  decorated like those of \<open>base_new.py\<close>. The file imports none of the names
  \<open>logging_utils\<close>, \<open>base\<close>, \<open>capabilities\<close>, \<open>fetch\<close>, \<open>ValidationError\<close> and
  \<open>ConfigurationError\<close> that it uses; they are read as what \<open>base_new.py\<close> imports under
  these names.
\<close>

record 'p GeminiRepository = "'p Repository" +
  version :: string

definition GeminiBaseMixin_get_headers ::
  "string option attr \<Rightarrow> exn + (string \<times> string) list" where
  "GeminiBaseMixin_get_headers k = Inr [(''Content-Type'', ''application/json'')]"

definition GeminiChatRepository_object ::
  "('n, 'r) ChatProvider \<Rightarrow> string option attr \<Rightarrow> string
     \<Rightarrow> ('n, 'r) ChatProvider GeminiRepository" where
  "GeminiChatRepository_object provider' api_key' version' =
     \<lparr>base_url = ''https://generativelanguage.googleapis.com'', provider_name = ''gemini'',
      get_headers = GeminiBaseMixin_get_headers, response_model = ''GenerateContentResponse'',
      api_key = api_key', provider = provider', version = version'\<rparr>"

definition GeminiEmbeddingRepository_object ::
  "('n, 'r) EmbeddingProvider \<Rightarrow> string option attr \<Rightarrow> string
     \<Rightarrow> ('n, 'r) EmbeddingProvider GeminiRepository" where
  "GeminiEmbeddingRepository_object provider' api_key' version' =
     \<lparr>base_url = ''https://generativelanguage.googleapis.com'', provider_name = ''gemini'',
      get_headers = GeminiBaseMixin_get_headers, response_model = ''EmbeddingResponse'',
      api_key = api_key', provider = provider', version = version'\<rparr>"

text \<open>
  The constructor, \<open>GeminiBaseMixin.__init__(self, api_key=None, version="v1")\<close>: its
  \<open>super().__init__(api_key)\<close> is \<open>ChatRepository.__init__\<close> of \<open>base.py\<close>, the next class
  in the order of resolution, whose parameter is the adapter. So the argument \<open>api_key\<close>
  is bound to \<open>provider\<close>, and \<open>api_key\<close> is left unassigned. \<open>gemini_version\<close> is
  \<open>settings.llms.gemini_version\<close>.
\<close>

definition GeminiChatRepository_init ::
  "string option \<Rightarrow> string \<Rightarrow> string option \<Rightarrow> string option GeminiRepository" where
  "GeminiChatRepository_init api_key' version' gemini_version =
     \<lparr>base_url = ''https://generativelanguage.googleapis.com'', provider_name = ''gemini'',
      get_headers = GeminiBaseMixin_get_headers, response_model = ''GenerateContentResponse'',
      api_key = NoAttr, provider = api_key',
      version = (if version' \<noteq> [] then version'
                 else if \<not> falsy gemini_version then format_str gemini_version
                 else ''v1'')\<rparr>"

definition GeminiChatRepository_try ::
  "('n, 'r) ChatProvider GeminiRepository \<Rightarrow> ('n, 'r) fetch \<Rightarrow> ChatRequest \<Rightarrow> 'n
     \<Rightarrow> (ChatRequest, 'n, 'r) event list \<times> (exn + ChatResponse)" where
  "GeminiChatRepository_try self fetch request provider_request =
     (case get_headers self (api_key self) of
        Inl e \<Rightarrow> except_Exception [] (provider self) e
      | Inr hs \<Rightarrow>
          (case api_key self of
               NoAttr \<Rightarrow> except_Exception [] (provider self) (AttributeError ''api_key'')
             | Attr k \<Rightarrow>
                (let call = \<lparr>url = base_url self @ ''/'' @ version self @ ''/models/''
                                   @ ChatRequest.model request @ '':generateContent'',
                             method' = ''POST'', headers = hs, params = Some [(''key'', k)],
                             body = provider_request, model = response_model self\<rparr>
                 in case fetch call of
                      Inl e \<Rightarrow> except_Exception [Transport call] (provider self) e
                    | Inr raw \<Rightarrow>
                        (case convert_chat_response (provider self) raw request of
                           Inl e \<Rightarrow>
                             except_Exception [Transport call, ConvertResponse raw request]
                               (provider self) e
                         | Inr response' \<Rightarrow>
                             ([Transport call, ConvertResponse raw request], Inr response')))))"

definition GeminiEmbeddingRepository_try ::
  "('n, 'r) EmbeddingProvider GeminiRepository \<Rightarrow> ('n, 'r) fetch \<Rightarrow> EmbeddingRequest \<Rightarrow> 'n
     \<Rightarrow> (EmbeddingRequest, 'n, 'r) event list \<times> (exn + EmbeddingResponse)" where
  "GeminiEmbeddingRepository_try self fetch request provider_request =
     (case get_headers self (api_key self) of
        Inl e \<Rightarrow> except_Exception [] (provider self) e
      | Inr hs \<Rightarrow>
          (case api_key self of
               NoAttr \<Rightarrow> except_Exception [] (provider self) (AttributeError ''api_key'')
             | Attr k \<Rightarrow>
                (let call = \<lparr>url = base_url self @ ''/'' @ version self @ ''/models/''
                                   @ EmbeddingRequest.model request @ '':embedContent'',
                             method' = ''POST'', headers = hs, params = Some [(''key'', k)],
                             body = provider_request, model = response_model self\<rparr>
                 in case fetch call of
                      Inl e \<Rightarrow> except_Exception [Transport call] (provider self) e
                    | Inr raw \<Rightarrow>
                        (case convert_embedding_response (provider self) raw request of
                           Inl e \<Rightarrow>
                             except_Exception [Transport call, ConvertResponse raw request]
                               (provider self) e
                         | Inr response' \<Rightarrow>
                             ([Transport call, ConvertResponse raw request], Inr response')))))"

definition GeminiChatRepository_complete_after_check ::
  "('n, 'r) ChatProvider GeminiRepository \<Rightarrow> ('n, 'r) fetch \<Rightarrow> ChatRequest
     \<Rightarrow> (ChatRequest, 'n, 'r) event list \<times> (exn + ChatResponse)" where
  "GeminiChatRepository_complete_after_check self fetch request =
     (case validate_chat_request (provider self) request of
        Inl e \<Rightarrow> ([Validate request], Inl e)
      | Inr errors \<Rightarrow>
          if errors \<noteq> [] then
            ([Validate request],
             Inl (LLM ValidationError (''Invalid request: '' @ join '', '' errors)
                    (provider_name self) None None))
          else
            (case convert_chat_request (provider self) request of
               Inl e \<Rightarrow> ([Validate request, ConvertRequest request], Inl e)
             | Inr provider_request \<Rightarrow>
                 (case GeminiChatRepository_try self fetch request provider_request of
                    (tr, outcome) \<Rightarrow> ([Validate request, ConvertRequest request] @ tr, outcome))))"

definition GeminiChatRepository_complete_body ::
  "('n, 'r) ChatProvider GeminiRepository \<Rightarrow> ('n, 'r) fetch \<Rightarrow> ChatRequest
     \<Rightarrow> (ChatRequest, 'n, 'r) event list \<times> (exn + ChatResponse)" where
  "GeminiChatRepository_complete_body self fetch request =
     (case validate_configuration self of
        Inl e \<Rightarrow> ([], Inl e)
      | Inr _ \<Rightarrow>
          (case isinstance_Protocol (provider self) of
             Inl e \<Rightarrow> ([], Inl e)
           | Inr is_provider \<Rightarrow>
               if \<not> is_provider then
                 ([], Inl (LLM UnsupportedOperationError
                             (''Chat completion not supported by Gemini'')
                             (provider_name self) None None))
               else GeminiChatRepository_complete_after_check self fetch request))"

definition GeminiChatRepository_complete ::
  "('n, 'r) ChatProvider GeminiRepository \<Rightarrow> call_style \<Rightarrow> ('n, 'r) fetch \<Rightarrow> ChatRequest
     \<Rightarrow> (ChatRequest, 'n, 'r) event list \<times> (exn + ChatResponse)" where
  "GeminiChatRepository_complete self style fetch request =
     log_operation True True style (GeminiChatRepository_complete_body self fetch) request"

definition GeminiEmbeddingRepository_embed_after_check ::
  "('n, 'r) EmbeddingProvider GeminiRepository \<Rightarrow> ('n, 'r) fetch \<Rightarrow> EmbeddingRequest
     \<Rightarrow> (EmbeddingRequest, 'n, 'r) event list \<times> (exn + EmbeddingResponse)" where
  "GeminiEmbeddingRepository_embed_after_check self fetch request =
     (case validate_embedding_request (provider self) request of
        Inl e \<Rightarrow> ([Validate request], Inl e)
      | Inr errors \<Rightarrow>
          if errors \<noteq> [] then
            ([Validate request],
             Inl (LLM ValidationError (''Invalid request: '' @ join '', '' errors)
                    (provider_name self) None None))
          else
            (case convert_embedding_request (provider self) request of
               Inl e \<Rightarrow> ([Validate request, ConvertRequest request], Inl e)
             | Inr provider_request \<Rightarrow>
                 (case GeminiEmbeddingRepository_try self fetch request provider_request of
                    (tr, outcome) \<Rightarrow> ([Validate request, ConvertRequest request] @ tr, outcome))))"

definition GeminiEmbeddingRepository_embed_body ::
  "('n, 'r) EmbeddingProvider GeminiRepository \<Rightarrow> ('n, 'r) fetch \<Rightarrow> EmbeddingRequest
     \<Rightarrow> (EmbeddingRequest, 'n, 'r) event list \<times> (exn + EmbeddingResponse)" where
  "GeminiEmbeddingRepository_embed_body self fetch request =
     (case validate_configuration self of
        Inl e \<Rightarrow> ([], Inl e)
      | Inr _ \<Rightarrow>
          (case isinstance_Protocol (provider self) of
             Inl e \<Rightarrow> ([], Inl e)
           | Inr is_provider \<Rightarrow>
               if \<not> is_provider then
                 ([], Inl (LLM UnsupportedOperationError
                             (''Embeddings not supported by Gemini'')
                             (provider_name self) None None))
               else GeminiEmbeddingRepository_embed_after_check self fetch request))"

definition GeminiEmbeddingRepository_embed ::
  "('n, 'r) EmbeddingProvider GeminiRepository \<Rightarrow> call_style \<Rightarrow> ('n, 'r) fetch \<Rightarrow> EmbeddingRequest
     \<Rightarrow> (EmbeddingRequest, 'n, 'r) event list \<times> (exn + EmbeddingResponse)" where
  "GeminiEmbeddingRepository_embed self style fetch request =
     log_operation True True style (GeminiEmbeddingRepository_embed_body self fetch) request"

section \<open>services/llm.py\<close>

text \<open>
  The service holds up to three repositories of \<open>repositories.base\<close>. A call of
  \<open>self.chat_repo.complete(request)\<close> runs the method of the object's class: the
  inherited one, or the override of \<open>gemini.py\<close>; the request is passed by position.
\<close>

datatype ('n, 'r) chat_repository =
    Inherited_chat "('n, 'r) ChatProvider Repository"
  | Gemini_chat "('n, 'r) ChatProvider GeminiRepository"

datatype ('n, 'r) embedding_repository =
    Inherited_embedding "('n, 'r) EmbeddingProvider Repository"
  | Gemini_embedding "('n, 'r) EmbeddingProvider GeminiRepository"

record ('n, 'r) LLMService =
  chat_repo :: "('n, 'r) chat_repository option"
  embedding_repo :: "('n, 'r) embedding_repository option"
  speech_repo :: "('n, 'r) SpeechProvider Repository option"

definition LLMService_complete ::
  "('n, 'r) LLMService \<Rightarrow> ('n, 'r) fetch \<Rightarrow> ChatRequest
     \<Rightarrow> (ChatRequest, 'n, 'r) event list \<times> (exn + ChatResponse)" where
  "LLMService_complete self fetch request =
     (case chat_repo self of
        None \<Rightarrow> ([], Inl (NotImplementedError ''Chat completion not supported''))
      | Some (Inherited_chat repo) \<Rightarrow> base_ChatRepository_complete repo fetch request
      | Some (Gemini_chat repo) \<Rightarrow> GeminiChatRepository_complete repo Positional fetch request)"

definition LLMService_embed ::
  "('n, 'r) LLMService \<Rightarrow> ('n, 'r) fetch \<Rightarrow> EmbeddingRequest
     \<Rightarrow> (EmbeddingRequest, 'n, 'r) event list \<times> (exn + EmbeddingResponse)" where
  "LLMService_embed self fetch request =
     (case embedding_repo self of
        None \<Rightarrow> ([], Inl (NotImplementedError ''Embeddings not supported''))
      | Some (Inherited_embedding repo) \<Rightarrow> base_EmbeddingRepository_embed repo fetch request
      | Some (Gemini_embedding repo) \<Rightarrow>
          GeminiEmbeddingRepository_embed repo Positional fetch request)"

definition LLMService_synthesize ::
  "('n, 'r) LLMService \<Rightarrow> ('n, 'r) fetch \<Rightarrow> SpeechRequest
     \<Rightarrow> (SpeechRequest, 'n, 'r) event list \<times> (exn + SpeechResponse)" where
  "LLMService_synthesize self fetch request =
     (case speech_repo self of
        None \<Rightarrow> ([], Inl (NotImplementedError ''Speech synthesis not supported''))
      | Some repo \<Rightarrow> base_SpeechRepository_synthesize repo fetch request)"

section \<open>Example values\<close>

text \<open>
  Concrete inputs for the closed theorems below: the request and the response of the
  end-to-end scenario of the specification, and an adapter whose validator reports a given
  list of problems, whose request converter returns the model name, whose response
  converter fails on the raw response \<open>malformed\<close>, and whose \<open>convert_error\<close> wraps every
  exception into a generic \<open>ProviderError\<close> that keeps it as the raw error. The native
  request and the raw response are strings here.
\<close>

definition example_request :: ChatRequest where
  "example_request =
     \<lparr>ChatRequest.model = ''m1'',
      messages = [\<lparr>role = USER,
                   content = [\<lparr>Content.type = TEXT, text' = Some ''hi'', media = None\<rparr>],
                   name = None, function_call = None\<rparr>],
      config = GenerationConfig_default\<lparr>max_tokens := Some 16\<rparr>\<rparr>"

definition example_response :: ChatResponse where
  "example_response =
     \<lparr>ChatResponse.id' = ''r1'',
      content = [\<lparr>Content.type = TEXT, text' = Some ''hello'', media = None\<rparr>],
      function_calls = None,
      metadata = \<lparr>ResponseMetadata.model = ''m1'',
                  usage = Some \<lparr>prompt_tokens = None, completion_tokens = None,
                                total_tokens = Some 5, audio_duration = None,
                                total_dimensions = None\<rparr>,
                  finish_reason = None, raw_response = None\<rparr>\<rparr>"

definition example_provider :: "string list \<Rightarrow> (string, string) ChatProvider" where
  "example_provider errors =
     \<lparr>convert_error = (\<lambda>e. Inr (LLM ProviderError ''request failed'' ''example'' None (Some e))),
      validate_chat_request = (\<lambda>q. Inr errors),
      convert_chat_request = (\<lambda>q. Inr (ChatRequest.model q)),
      convert_chat_response =
        (\<lambda>raw q. if raw = ''malformed'' then Inl (ValueError [''malformed response''])
                 else Inr example_response)\<rparr>"

text \<open>
  An object of class \<open>OpenAIChatRepository\<close> as the constructor of \<open>base.py\<close> leaves it,
  with \<open>api_key\<close> then set to \<open>k\<close> (\<open>NoAttr\<close>: never assigned), bound to the example
  adapter.
\<close>

definition example_repository ::
  "string option attr \<Rightarrow> string list \<Rightarrow> (string, string) ChatProvider Repository" where
  "example_repository k errors =
     (base_ChatRepository_init (OpenAIChatRepository_class None) (example_provider errors))
       \<lparr>api_key := k\<rparr>"

definition example_call :: "string \<Rightarrow> string make_request" where
  "example_call token =
     \<lparr>url = ''https://api.openai.com/v1/chat/completions'', method' = ''POST'',
      headers = [(''Authorization'', ''Bearer '' @ token),
                 (''Content-Type'', ''application/json''),
                 (''OpenAI-Organization'', [])],
      params = None, body = ''m1'', model = ''ChatCompletionResponse''\<rparr>"

definition example_service :: "(string, string) LLMService" where
  "example_service = \<lparr>chat_repo = None, embedding_repo = None, speech_repo = None\<rparr>"

definition example_embedding_request :: EmbeddingRequest where
  "example_embedding_request =
     \<lparr>EmbeddingRequest.model = ''e1'', input = [Inl ''hi''], encoding_format = Float_format\<rparr>"

definition example_speech_request :: SpeechRequest where
  "example_speech_request =
     \<lparr>SpeechRequest.model = ''s1'', input = ''hi'', voice = NEUTRAL, format = MP3,
      speed = 0x3FF0000000000000, pitch = None, volume = None\<rparr>"









text \<open>
  A subclass of \<open>ChatRepository\<close> that sets the two class attributes and the response model
  and inherits \<open>_get_headers\<close> from \<open>BaseLLMRepository\<close>.
\<close>

definition plain_class :: RepositoryClass where
  "plain_class =
     \<lparr>base_url = ''https://llm.example.org'', provider_name = ''example'',
      get_headers = BaseLLMRepository_get_headers ''example'',
      response_model = ''ExampleResponse''\<rparr>"

section \<open>Vocabulary of the properties\<close>

text \<open>
  A run (the calls made, with the outcome) converts its errors when every instance of
  \<open>Exception\<close> that the transport raised in it, and every one that the conversion of a
  raw response raised in it, went to \<open>convert_error\<close>, and what came back from there is
  the exception that leaves.
\<close>

definition errors_are_converted ::
  "('q, 'n, 'r) event list \<times> (exn + 'a) \<Rightarrow> ('n, 'r) fetch \<Rightarrow> ('r \<Rightarrow> 'q \<Rightarrow> exn + 'a)
     \<Rightarrow> 'p provider_base_scheme \<Rightarrow> bool" where
  "errors_are_converted run fetch convert_response p \<longleftrightarrow>
     (\<forall>call e. Transport call \<in> set (fst run) \<and> fetch call = Inl e \<and> is_Exception e
        \<longrightarrow> snd run = Inl (converted p e) \<and> ConvertError e \<in> set (fst run))
   \<and> (\<forall>raw q e. ConvertResponse raw q \<in> set (fst run) \<and> convert_response raw q = Inl e
          \<and> is_Exception e
        \<longrightarrow> snd run = Inl (converted p e) \<and> ConvertError e \<in> set (fst run))"


text \<open>
  The keyword arguments with which a dispatcher of \<open>base.py\<close> calls the transport: the
  path of its capability after \<open>base_url\<close>, the headers it built, the converted request.
\<close>

definition call_of ::
  "('p, 'z) Repository_scheme \<Rightarrow> string \<Rightarrow> (string \<times> string) list \<Rightarrow> 'n \<Rightarrow> 'n make_request" where
  "call_of self path' hs b =
     \<lparr>url = base_url self @ path', method' = ''POST'', headers = hs, params = None,
      body = b, model = response_model self\<rparr>"

section \<open>Properties\<close>

subsection \<open>Masking of sensitive data\<close>

lemma mask_dict_keys: "map fst (mask_dict d) = map fst d"
  by (induction d rule: mask_dict.induct) simp_all

lemma mask_dict_length: "length (mask_dict d) = length d"
  using mask_dict_keys [of d] by (metis length_map)

lemma mask_dict_nth:
  "i < length d \<Longrightarrow>
   mask_dict d ! i =
     (fst (d ! i),
      if lower (fst (d ! i)) \<in> SENSITIVE_FIELDS then PStr ''***''
      else (case snd (d ! i) of PDict d' \<Rightarrow> PDict (mask_dict d') | v \<Rightarrow> v))"
proof (induction d arbitrary: i rule: mask_dict.induct)
  case 1
  then show ?case by simp
next
  case (2 k v d)
  show ?case
  proof (cases i)
    case 0
    then show ?thesis by (simp split: pyval.splits)
  next
    case (Suc j)
    with 2 show ?thesis by simp
  qed
qed

lemma mask_dict_map_of:
  "map_of (mask_dict d) k =
     map_option (\<lambda>v. if lower k \<in> SENSITIVE_FIELDS then PStr ''***''
                     else (case v of PDict d' \<Rightarrow> PDict (mask_dict d') | _ \<Rightarrow> v))
       (map_of d k)"
  by (induction d rule: mask_dict.induct) simp_all

lemma subscript_mask_dict:
  "\<forall>k \<in> set ks. lower k \<notin> SENSITIVE_FIELDS \<Longrightarrow>
   subscript (PDict (mask_dict d)) ks =
     map_option (\<lambda>v. case v of PDict d' \<Rightarrow> PDict (mask_dict d') | _ \<Rightarrow> v)
       (subscript (PDict d) ks)"
proof (induction ks arbitrary: d)
  case Nil
  then show ?case by simp
next
  case (Cons k ks)
  show ?case
  proof (cases "map_of d k")
    case None
    then show ?thesis by (simp add: mask_dict_map_of)
  next
    case (Some v)
    from Cons.prems have k: "lower k \<notin> SENSITIVE_FIELDS"
      and ks: "\<forall>k \<in> set ks. lower k \<notin> SENSITIVE_FIELDS" by simp_all
    show ?thesis
    proof (cases v)
      case (PDict d')
      with Some k Cons.IH [OF ks, of d'] show ?thesis
        by (simp add: mask_dict_map_of)
    next
      case PNone
      with Some k show ?thesis by (cases ks) (simp_all add: mask_dict_map_of)
    next
      case (PBool b)
      with Some k show ?thesis by (cases ks) (simp_all add: mask_dict_map_of)
    next
      case (PInt n)
      with Some k show ?thesis by (cases ks) (simp_all add: mask_dict_map_of)
    next
      case (PFloat w)
      with Some k show ?thesis by (cases ks) (simp_all add: mask_dict_map_of)
    next
      case (PStr s)
      with Some k show ?thesis by (cases ks) (simp_all add: mask_dict_map_of)
    next
      case (PList xs)
      with Some k show ?thesis by (cases ks) (simp_all add: mask_dict_map_of)
    qed
  qed
qed

text \<open>
  C10. Take any dict \<open>d\<close> of the input that is reached through dict values under keys
  that are not sensitive (the input itself for the empty path). The output holds at the
  same place a dict with the same keys in the same order, in which the value of every
  key whose lower-cased name is in \<open>SENSITIVE_FIELDS\<close> is \<open>'***'\<close>, and every other
  entry whose value is not a dict is unchanged. A list is such a value: it is returned as
  it is, with the dicts inside it and their sensitive keys.
\<close>

theorem mask_sensitive_data_nested:
  assumes "subscript (PDict data') ks = Some (PDict d)"
    and "\<forall>k \<in> set ks. lower k \<notin> SENSITIVE_FIELDS"
  shows "\<exists>d'. subscript (PDict (mask_sensitive_data data')) ks = Some (PDict d')
     \<and> map fst d' = map fst d
     \<and> (\<forall>i < length d.
          (lower (fst (d ! i)) \<in> SENSITIVE_FIELDS \<longrightarrow> snd (d' ! i) = PStr ''***'')
        \<and> (lower (fst (d ! i)) \<notin> SENSITIVE_FIELDS \<and> \<not> is_dict (snd (d ! i))
             \<longrightarrow> snd (d' ! i) = snd (d ! i))
        \<and> (\<forall>xs. lower (fst (d ! i)) \<notin> SENSITIVE_FIELDS \<and> snd (d ! i) = PList xs
             \<longrightarrow> snd (d' ! i) = PList xs))"
proof -
  have at: "subscript (PDict (mask_sensitive_data data')) ks = Some (PDict (mask_dict d))"
    using assms by (simp add: mask_sensitive_data_def subscript_mask_dict)
  have entries: "\<forall>i < length d.
          (lower (fst (d ! i)) \<in> SENSITIVE_FIELDS \<longrightarrow> snd (mask_dict d ! i) = PStr ''***'')
        \<and> (lower (fst (d ! i)) \<notin> SENSITIVE_FIELDS \<and> \<not> is_dict (snd (d ! i))
             \<longrightarrow> snd (mask_dict d ! i) = snd (d ! i))
        \<and> (\<forall>xs. lower (fst (d ! i)) \<notin> SENSITIVE_FIELDS \<and> snd (d ! i) = PList xs
             \<longrightarrow> snd (mask_dict d ! i) = PList xs)"
    by (auto simp: mask_dict_nth split: pyval.splits)
  from at entries mask_dict_keys [of d] show ?thesis by blast
qed

theorem mask_sensitive_data_nested_witness:
  "subscript (PDict [(''user'', PDict [(''Token'', PStr ''t''),
        (''items'', PList [PDict [(''key'', PStr ''s'')]]), (''n'', PInt 1)])]) [''user'']
     = Some (PDict [(''Token'', PStr ''t''),
        (''items'', PList [PDict [(''key'', PStr ''s'')]]), (''n'', PInt 1)])
   \<and> lower ''user'' \<notin> SENSITIVE_FIELDS
   \<and> (\<exists>d'. subscript (PDict (mask_sensitive_data [(''user'', PDict [(''Token'', PStr ''t''),
          (''items'', PList [PDict [(''key'', PStr ''s'')]]), (''n'', PInt 1)])])) [''user'']
          = Some (PDict d')
        \<and> snd (d' ! 0) = PStr ''***''
        \<and> snd (d' ! 1) = PList [PDict [(''key'', PStr ''s'')]]
        \<and> snd (d' ! 2) = PInt 1)"
proof -
  let ?d = "[(''Token'', PStr ''t''),
        (''items'', PList [PDict [(''key'', PStr ''s'')]]), (''n'', PInt 1)]"
  have h1: "subscript (PDict [(''user'', PDict ?d)]) [''user''] = Some (PDict ?d)"
    by simp
  have h2: "\<forall>k \<in> set [''user'']. lower k \<notin> SENSITIVE_FIELDS"
    by (simp add: lower_def lower_char_def SENSITIVE_FIELDS_def)
  have s0: "lower (fst (?d ! 0)) \<in> SENSITIVE_FIELDS"
    by (simp add: lower_def lower_char_def SENSITIVE_FIELDS_def)
  have s1: "lower (fst (?d ! 1)) \<notin> SENSITIVE_FIELDS"
    by (simp add: lower_def lower_char_def SENSITIVE_FIELDS_def)
  have s2: "lower (fst (?d ! 2)) \<notin> SENSITIVE_FIELDS"
    by (simp add: lower_def lower_char_def SENSITIVE_FIELDS_def)
  from mask_sensitive_data_nested [OF h1 h2] obtain d' where
    at: "subscript (PDict (mask_sensitive_data [(''user'', PDict ?d)])) [''user''] = Some (PDict d')"
    and ent: "\<forall>i < length ?d.
          (lower (fst (?d ! i)) \<in> SENSITIVE_FIELDS \<longrightarrow> snd (d' ! i) = PStr ''***'')
        \<and> (lower (fst (?d ! i)) \<notin> SENSITIVE_FIELDS \<and> \<not> is_dict (snd (?d ! i))
             \<longrightarrow> snd (d' ! i) = snd (?d ! i))
        \<and> (\<forall>xs. lower (fst (?d ! i)) \<notin> SENSITIVE_FIELDS \<and> snd (?d ! i) = PList xs
             \<longrightarrow> snd (d' ! i) = PList xs)"
    by blast
  from ent s0 have e0: "snd (d' ! 0) = PStr ''***''" by simp
  from ent [rule_format, of 1] s1 have e1: "snd (d' ! 1) = PList [PDict [(''key'', PStr ''s'')]]"
    by simp
  from ent [rule_format, of 2] s2 have e2: "snd (d' ! 2) = PInt 1" by simp
  from h2 have h2': "lower ''user'' \<notin> SENSITIVE_FIELDS" by simp
  from h1 h2' at e0 e1 e2 show ?thesis by blast
qed

subsection \<open>Unfolding the examples\<close>

lemmas example_defs =
  example_repository_def base_ChatRepository_init_def example_provider_def
  OpenAIChatRepository_class_def OpenAIBaseMixin_get_headers_def example_call_def
  ChatRepository_try_def except_Exception_def raise_converted_def converted_def
  validate_configuration_def log_operation_def

subsection \<open>The logging decorator\<close>

lemma log_operation_trace:
  "x \<in> set (fst (log_operation lr lp style f q)) \<Longrightarrow> x \<in> set (fst (f q))"
  by (auto simp: log_operation_def split: if_splits prod.splits sum.splits)


lemma log_operation_Positional_error:
  "snd (f q) = Inl e \<Longrightarrow> log_operation lr lp Positional f q = f q"
  by (cases "f q") (simp add: log_operation_def)

subsection \<open>Exceptions inside the try block\<close>

lemma ChatRepository_try_transport:
  "ChatRepository_try self fetch request b = (tr, outcome) \<Longrightarrow> Transport call \<in> set tr
   \<Longrightarrow> fetch call = Inl e \<Longrightarrow> is_Exception e
   \<Longrightarrow> outcome = Inl (converted (provider self) e) \<and> ConvertError e \<in> set tr"
  by (auto simp: ChatRepository_try_def except_Exception_def raise_converted_def Let_def
      split: sum.splits attr.splits if_splits)

lemma ChatRepository_try_conversion:
  "ChatRepository_try self fetch request b = (tr, outcome) \<Longrightarrow> ConvertResponse raw q \<in> set tr
   \<Longrightarrow> convert_chat_response (provider self) raw q = Inl e \<Longrightarrow> is_Exception e
   \<Longrightarrow> outcome = Inl (converted (provider self) e) \<and> ConvertError e \<in> set tr"
  by (auto simp: ChatRepository_try_def except_Exception_def raise_converted_def Let_def
      split: sum.splits attr.splits if_splits)

lemma EmbeddingRepository_try_transport:
  "EmbeddingRepository_try self fetch request b = (tr, outcome) \<Longrightarrow> Transport call \<in> set tr
   \<Longrightarrow> fetch call = Inl e \<Longrightarrow> is_Exception e
   \<Longrightarrow> outcome = Inl (converted (provider self) e) \<and> ConvertError e \<in> set tr"
  by (auto simp: EmbeddingRepository_try_def except_Exception_def raise_converted_def Let_def
      split: sum.splits attr.splits if_splits)

lemma EmbeddingRepository_try_conversion:
  "EmbeddingRepository_try self fetch request b = (tr, outcome) \<Longrightarrow> ConvertResponse raw q \<in> set tr
   \<Longrightarrow> convert_embedding_response (provider self) raw q = Inl e \<Longrightarrow> is_Exception e
   \<Longrightarrow> outcome = Inl (converted (provider self) e) \<and> ConvertError e \<in> set tr"
  by (auto simp: EmbeddingRepository_try_def except_Exception_def raise_converted_def Let_def
      split: sum.splits attr.splits if_splits)

lemma SpeechRepository_try_transport:
  "SpeechRepository_try self fetch request b = (tr, outcome) \<Longrightarrow> Transport call \<in> set tr
   \<Longrightarrow> fetch call = Inl e \<Longrightarrow> is_Exception e
   \<Longrightarrow> outcome = Inl (converted (provider self) e) \<and> ConvertError e \<in> set tr"
  by (auto simp: SpeechRepository_try_def except_Exception_def raise_converted_def Let_def
      split: sum.splits attr.splits if_splits)

lemma SpeechRepository_try_conversion:
  "SpeechRepository_try self fetch request b = (tr, outcome) \<Longrightarrow> ConvertResponse raw q \<in> set tr
   \<Longrightarrow> convert_speech_response (provider self) raw q = Inl e \<Longrightarrow> is_Exception e
   \<Longrightarrow> outcome = Inl (converted (provider self) e) \<and> ConvertError e \<in> set tr"
  by (auto simp: SpeechRepository_try_def except_Exception_def raise_converted_def Let_def
      split: sum.splits attr.splits if_splits)

lemma GeminiChatRepository_try_transport:
  "GeminiChatRepository_try self fetch request b = (tr, outcome) \<Longrightarrow> Transport call \<in> set tr
   \<Longrightarrow> fetch call = Inl e \<Longrightarrow> is_Exception e
   \<Longrightarrow> outcome = Inl (converted (provider self) e) \<and> ConvertError e \<in> set tr"
  by (auto simp: GeminiChatRepository_try_def except_Exception_def raise_converted_def Let_def
      split: sum.splits attr.splits if_splits)

lemma GeminiChatRepository_try_conversion:
  "GeminiChatRepository_try self fetch request b = (tr, outcome) \<Longrightarrow> ConvertResponse raw q \<in> set tr
   \<Longrightarrow> convert_chat_response (provider self) raw q = Inl e \<Longrightarrow> is_Exception e
   \<Longrightarrow> outcome = Inl (converted (provider self) e) \<and> ConvertError e \<in> set tr"
  by (auto simp: GeminiChatRepository_try_def except_Exception_def raise_converted_def Let_def
      split: sum.splits attr.splits if_splits)

lemma GeminiEmbeddingRepository_try_transport:
  "GeminiEmbeddingRepository_try self fetch request b = (tr, outcome) \<Longrightarrow> Transport call \<in> set tr
   \<Longrightarrow> fetch call = Inl e \<Longrightarrow> is_Exception e
   \<Longrightarrow> outcome = Inl (converted (provider self) e) \<and> ConvertError e \<in> set tr"
  by (auto simp: GeminiEmbeddingRepository_try_def except_Exception_def raise_converted_def Let_def
      split: sum.splits attr.splits if_splits)

lemma GeminiEmbeddingRepository_try_conversion:
  "GeminiEmbeddingRepository_try self fetch request b = (tr, outcome) \<Longrightarrow> ConvertResponse raw q \<in> set tr
   \<Longrightarrow> convert_embedding_response (provider self) raw q = Inl e \<Longrightarrow> is_Exception e
   \<Longrightarrow> outcome = Inl (converted (provider self) e) \<and> ConvertError e \<in> set tr"
  by (auto simp: GeminiEmbeddingRepository_try_def except_Exception_def raise_converted_def Let_def
      split: sum.splits attr.splits if_splits)




text \<open>
  The statements after the capability check convert their errors too, in \<open>base_new.py\<close>
  and in \<open>gemini.py\<close>.
\<close>

lemma base_new_ChatRepository_complete_after_check_converts:
  "errors_are_converted (base_new_ChatRepository_complete_after_check self fetch request) fetch
     (convert_chat_response (provider self)) (provider self)"
  unfolding errors_are_converted_def
  by (auto simp: base_new_ChatRepository_complete_after_check_def split: sum.splits if_splits prod.splits
      dest: ChatRepository_try_transport ChatRepository_try_conversion)

lemma base_new_EmbeddingRepository_embed_after_check_converts:
  "errors_are_converted (base_new_EmbeddingRepository_embed_after_check self fetch request) fetch
     (convert_embedding_response (provider self)) (provider self)"
  unfolding errors_are_converted_def
  by (auto simp: base_new_EmbeddingRepository_embed_after_check_def split: sum.splits if_splits prod.splits
      dest: EmbeddingRepository_try_transport EmbeddingRepository_try_conversion)

lemma base_new_SpeechRepository_synthesize_after_check_converts:
  "errors_are_converted (base_new_SpeechRepository_synthesize_after_check self fetch request) fetch
     (convert_speech_response (provider self)) (provider self)"
  unfolding errors_are_converted_def
  by (auto simp: base_new_SpeechRepository_synthesize_after_check_def split: sum.splits if_splits prod.splits
      dest: SpeechRepository_try_transport SpeechRepository_try_conversion)

lemma GeminiChatRepository_complete_after_check_converts:
  "errors_are_converted (GeminiChatRepository_complete_after_check self fetch request) fetch
     (convert_chat_response (provider self)) (provider self)"
  unfolding errors_are_converted_def
  by (auto simp: GeminiChatRepository_complete_after_check_def split: sum.splits if_splits prod.splits
      dest: GeminiChatRepository_try_transport GeminiChatRepository_try_conversion)

lemma GeminiEmbeddingRepository_embed_after_check_converts:
  "errors_are_converted (GeminiEmbeddingRepository_embed_after_check self fetch request) fetch
     (convert_embedding_response (provider self)) (provider self)"
  unfolding errors_are_converted_def
  by (auto simp: GeminiEmbeddingRepository_embed_after_check_def split: sum.splits if_splits prod.splits
      dest: GeminiEmbeddingRepository_try_transport GeminiEmbeddingRepository_try_conversion)

subsection \<open>The capability check\<close>

text \<open>
  A dispatcher of \<open>base_new.py\<close> or of \<open>gemini.py\<close> stops at the configuration check or
  at the capability check: it calls neither the adapter nor the transport.
\<close>

lemma base_new_ChatRepository_complete_body_trace: "fst (base_new_ChatRepository_complete_body self fetch request) = []"
  by (simp add: base_new_ChatRepository_complete_body_def isinstance_Protocol_def split: sum.splits)


lemma base_new_ChatRepository_complete_trace: "fst (base_new_ChatRepository_complete self style fetch request) = []"
  using base_new_ChatRepository_complete_body_trace [of self fetch request]
  by (cases "base_new_ChatRepository_complete_body self fetch request")
    (auto simp: base_new_ChatRepository_complete_def log_operation_def split: sum.splits)


lemma base_new_EmbeddingRepository_embed_body_trace: "fst (base_new_EmbeddingRepository_embed_body self fetch request) = []"
  by (simp add: base_new_EmbeddingRepository_embed_body_def isinstance_Protocol_def split: sum.splits)


lemma base_new_EmbeddingRepository_embed_trace: "fst (base_new_EmbeddingRepository_embed self style fetch request) = []"
  using base_new_EmbeddingRepository_embed_body_trace [of self fetch request]
  by (cases "base_new_EmbeddingRepository_embed_body self fetch request")
    (auto simp: base_new_EmbeddingRepository_embed_def log_operation_def split: sum.splits)


lemma base_new_SpeechRepository_synthesize_body_trace: "fst (base_new_SpeechRepository_synthesize_body self fetch request) = []"
  by (simp add: base_new_SpeechRepository_synthesize_body_def isinstance_Protocol_def split: sum.splits)


lemma base_new_SpeechRepository_synthesize_trace: "fst (base_new_SpeechRepository_synthesize self style fetch request) = []"
  using base_new_SpeechRepository_synthesize_body_trace [of self fetch request]
  by (cases "base_new_SpeechRepository_synthesize_body self fetch request")
    (auto simp: base_new_SpeechRepository_synthesize_def log_operation_def split: sum.splits)


lemma GeminiChatRepository_complete_body_trace: "fst (GeminiChatRepository_complete_body self fetch request) = []"
  by (simp add: GeminiChatRepository_complete_body_def isinstance_Protocol_def split: sum.splits)


lemma GeminiChatRepository_complete_trace: "fst (GeminiChatRepository_complete self style fetch request) = []"
  using GeminiChatRepository_complete_body_trace [of self fetch request]
  by (cases "GeminiChatRepository_complete_body self fetch request")
    (auto simp: GeminiChatRepository_complete_def log_operation_def split: sum.splits)


lemma GeminiEmbeddingRepository_embed_body_trace: "fst (GeminiEmbeddingRepository_embed_body self fetch request) = []"
  by (simp add: GeminiEmbeddingRepository_embed_body_def isinstance_Protocol_def split: sum.splits)


lemma GeminiEmbeddingRepository_embed_trace: "fst (GeminiEmbeddingRepository_embed self style fetch request) = []"
  using GeminiEmbeddingRepository_embed_body_trace [of self fetch request]
  by (cases "GeminiEmbeddingRepository_embed_body self fetch request")
    (auto simp: GeminiEmbeddingRepository_embed_def log_operation_def split: sum.splits)


subsection \<open>Validation failures\<close>

text \<open>
  C1, on the dispatcher of \<open>base.py\<close>. When the validator returns a list of problems that
  is not empty, \<open>complete\<close> stops there: the validator is the only call made, neither the
  request converter nor the transport is invoked. The exception raised is the built-in
  \<open>ValueError\<close> carrying the list, which is no \<open>LLMError\<close>.
\<close>

theorem base_complete_validation_failure:
  assumes "validate_chat_request (provider self) request = Inr errors"
    and "errors \<noteq> []"
  shows "base_ChatRepository_complete self fetch request
           = ([Validate request], Inl (ValueError errors))
       \<and> \<not> isinstance (ValueError errors) LLMError"
  using assms by (simp add: base_ChatRepository_complete_def)

theorem base_complete_validation_failure_witness:
  "validate_chat_request (provider (example_repository NoAttr [''bad''])) example_request
     = Inr [''bad'']
   \<and> [''bad''] \<noteq> ([] :: string list)
   \<and> base_ChatRepository_complete (example_repository NoAttr [''bad''])
         (\<lambda>call. Inr ''raw'') example_request
       = ([Validate example_request], Inl (ValueError [''bad'']))
   \<and> \<not> isinstance (ValueError [''bad'']) LLMError"
proof -
  have v: "validate_chat_request (provider (example_repository NoAttr [''bad'']))
      example_request = Inr [''bad'']"
    by (simp add: example_repository_def base_ChatRepository_init_def example_provider_def)
  have n: "[''bad''] \<noteq> ([] :: string list)" by simp
  from base_complete_validation_failure [OF v n, of "\<lambda>call. Inr ''raw''"] v n
  show ?thesis by simp
qed

text \<open>\<open>embed\<close> and \<open>synthesize\<close> of \<open>base.py\<close> do the same.\<close>

lemma base_embed_validation_failure:
  assumes "validate_embedding_request (provider self) request = Inr errors"
    and "errors \<noteq> []"
  shows "base_EmbeddingRepository_embed self fetch request
           = ([Validate request], Inl (ValueError errors))"
  using assms by (simp add: base_EmbeddingRepository_embed_def)

lemma base_synthesize_validation_failure:
  assumes "validate_speech_request (provider self) request = Inr errors"
    and "errors \<noteq> []"
  shows "base_SpeechRepository_synthesize self fetch request
           = ([Validate request], Inl (ValueError errors))"
  using assms by (simp add: base_SpeechRepository_synthesize_def)

text \<open>
  In \<open>base_new.py\<close> and \<open>gemini.py\<close> the statements that follow the capability check raise
  \<open>ValidationError\<close> at the same place. No call of these dispatchers gets there: with the
  configuration valid and the request passed by position, the capability check itself
  raises \<open>TypeError\<close>, before the validator is called.
\<close>

lemma base_new_complete_validation_failure:
  assumes "validate_chat_request (provider self) request = Inr errors"
    and "errors \<noteq> []"
  shows "base_new_ChatRepository_complete_after_check self fetch request
           = ([Validate request],
              Inl (LLM ValidationError (''Invalid request: '' @ join '', '' errors)
                     (provider_name self) None None))"
  using assms by (simp add: base_new_ChatRepository_complete_after_check_def)

lemma Gemini_complete_validation_failure:
  assumes "validate_chat_request (provider self) request = Inr errors"
    and "errors \<noteq> []"
  shows "GeminiChatRepository_complete_after_check self fetch request
           = ([Validate request],
              Inl (LLM ValidationError (''Invalid request: '' @ join '', '' errors)
                     (provider_name self) None None))"
  using assms by (simp add: GeminiChatRepository_complete_after_check_def)

lemma base_new_complete_capability_check:
  assumes "validate_configuration self = Inr ()"
  shows "base_new_ChatRepository_complete self Positional fetch request
           = ([], Inl (TypeError ''Instance and class checks can only be used with @runtime_checkable protocols''))"
  using assms
  by (simp add: base_new_ChatRepository_complete_def base_new_ChatRepository_complete_body_def
      log_operation_def isinstance_Protocol_def)

lemma Gemini_complete_capability_check:
  assumes "validate_configuration self = Inr ()"
  shows "GeminiChatRepository_complete self Positional fetch request
           = ([], Inl (TypeError ''Instance and class checks can only be used with @runtime_checkable protocols''))"
  using assms
  by (simp add: GeminiChatRepository_complete_def GeminiChatRepository_complete_body_def
      log_operation_def isinstance_Protocol_def)

subsection \<open>A missing dispatcher\<close>

text \<open>
  C5, as the code has it. When the repository of a capability is absent, the call of the
  service raises the built-in \<open>NotImplementedError\<close> with the message of that capability,
  and no call reaches an adapter or the transport.
\<close>

theorem LLMService_missing_repository:
  "(chat_repo self = None \<longrightarrow>
      LLMService_complete self fetch request
        = ([], Inl (NotImplementedError ''Chat completion not supported'')))
   \<and> (embedding_repo self = None \<longrightarrow>
      LLMService_embed self fetch embedding_request
        = ([], Inl (NotImplementedError ''Embeddings not supported'')))
   \<and> (speech_repo self = None \<longrightarrow>
      LLMService_synthesize self fetch speech_request
        = ([], Inl (NotImplementedError ''Speech synthesis not supported'')))"
  by (simp add: LLMService_complete_def LLMService_embed_def LLMService_synthesize_def)

theorem LLMService_missing_repository_witness:
  "chat_repo example_service = None
   \<and> embedding_repo example_service = None
   \<and> speech_repo example_service = None
   \<and> LLMService_complete example_service (\<lambda>call. Inr ''raw'') example_request
       = ([], Inl (NotImplementedError ''Chat completion not supported''))
   \<and> LLMService_embed example_service (\<lambda>call. Inr ''raw'') example_embedding_request
       = ([], Inl (NotImplementedError ''Embeddings not supported''))
   \<and> LLMService_synthesize example_service (\<lambda>call. Inr ''raw'') example_speech_request
       = ([], Inl (NotImplementedError ''Speech synthesis not supported''))"
proof -
  have c: "chat_repo example_service = None"
    and e: "embedding_repo example_service = None"
    and s: "speech_repo example_service = None"
    by (simp_all add: example_service_def)
  from LLMService_missing_repository
    [of example_service "\<lambda>call. Inr ''raw''" example_request example_embedding_request
      example_speech_request]
    c e s
  show ?thesis by blast
qed

text \<open>
  As the specification words it, the property fails there: what the service raises is not an
  \<open>UnsupportedOperationError\<close>, and not an \<open>LLMError\<close> of any class.
\<close>

theorem LLMService_missing_repository_counterexample:
  "\<not> (\<exists>e. snd (LLMService_complete example_service (\<lambda>call. Inr ''raw'') example_request)
            = Inl e \<and> isinstance e UnsupportedOperationError)"
  by (simp add: LLMService_complete_def example_service_def)

subsection \<open>Transport and conversion errors\<close>










text \<open>The same holds of every dispatcher of \<open>base.py\<close> and every such exception.\<close>

lemma base_complete_uncaught:
  assumes "validate_chat_request (provider self) request = Inr []"
    and "convert_chat_request (provider self) request = Inr b"
    and "get_headers self (api_key self) = Inr hs"
    and "fetch (call_of self ''/v1/chat/completions'' hs b) = Inl e"
    and "\<not> is_Exception e"
  shows "base_ChatRepository_complete self fetch request
     = ([Validate request, ConvertRequest request,
         Transport (call_of self ''/v1/chat/completions'' hs b)], Inl e)"
  using assms
  by (simp add: base_ChatRepository_complete_def ChatRepository_try_def call_of_def
      except_Exception_def)

subsection \<open>The source fields of a MediaSource\<close>





text \<open>What the model does reject: a missing field, a value of the wrong type, a keyword it
  does not know.\<close>

lemma MediaSource_init_rejects:
  "MediaSource_init [(''mime_type'', PStr ''image/png'')]
     = Inl (PydanticValidationError [''type: Field required''])"
  "MediaSource_init [(''type'', PStr ''image''), (''mime_type'', PStr ''image/png''),
       (''data'', PInt 7)]
     = Inl (PydanticValidationError [''data: Input should be a valid string''])"
  "MediaSource_init [(''type'', PStr ''image''), (''mime_type'', PStr ''image/png''),
       (''uri'', PStr ''x'')]
     = Inl (PydanticValidationError [''uri: Extra inputs are not permitted''])"
  by (simp_all add: MediaSource_init_def required_ContentType_def problems_def
      extra_forbidden_def MediaSource_fields_def)

subsection \<open>A missing credential\<close>

text \<open>
  C6, on the dispatcher of \<open>base.py\<close>, for an \<open>OpenAIChatRepository\<close> and a request the
  adapter accepts. With \<open>api_key\<close> never assigned (which is how the constructor of
  \<open>base.py\<close> leaves the object) the call fails while the headers are built, and what
  leaves is the adapter's conversion of the \<open>AttributeError\<close>. With \<open>api_key\<close> empty, or
  \<open>None\<close>, the transport is called, with an empty bearer token or the token \<open>None\<close>, and
  the response comes back. No run raises a \<open>ConfigurationError\<close>.
\<close>

theorem base_complete_without_credential:
  "base_ChatRepository_complete (example_repository NoAttr []) (\<lambda>call. Inr ''raw'')
       example_request
     = ([Validate example_request, ConvertRequest example_request,
         ConvertError (AttributeError ''api_key'')],
        Inl (LLM ProviderError ''request failed'' ''example'' None
               (Some (AttributeError ''api_key''))))
   \<and> \<not> isinstance (LLM ProviderError ''request failed'' ''example'' None
               (Some (AttributeError ''api_key''))) ConfigurationError
   \<and> base_ChatRepository_complete (example_repository (Attr (Some [])) [])
       (\<lambda>call. Inr ''raw'') example_request
     = ([Validate example_request, ConvertRequest example_request,
         Transport (example_call []), ConvertResponse ''raw'' example_request],
        Inr example_response)
   \<and> base_ChatRepository_complete (example_repository (Attr None) [])
       (\<lambda>call. Inr ''raw'') example_request
     = ([Validate example_request, ConvertRequest example_request,
         Transport (example_call ''None''), ConvertResponse ''raw'' example_request],
        Inr example_response)"
  by (simp add: base_ChatRepository_complete_def example_defs example_request_def)

text \<open>
  The dispatchers of \<open>base_new.py\<close> and of \<open>gemini.py\<close> do check: with \<open>api_key\<close> bound to
  \<open>None\<close> or to the empty string, a call that passes the request by position raises
  \<open>ConfigurationError\<close> before any other call is made. A call that passes the request by
  keyword does not get that far: the logging decorator raises \<open>TypeError\<close> first.
\<close>

lemma validate_configuration_falsy:
  "api_key self = Attr k \<Longrightarrow> falsy k \<Longrightarrow>
   validate_configuration self
     = Inl (LLM ConfigurationError (''API key not configured for '' @ provider_name self)
              (provider_name self) None None)"
  by (simp add: validate_configuration_def)

lemma base_new_missing_credential:
  assumes "api_key self = Attr k" and "falsy k"
  shows "base_new_ChatRepository_complete self Positional fetch request
     = ([], Inl (LLM ConfigurationError (''API key not configured for '' @ provider_name self)
                   (provider_name self) None None))"
  using validate_configuration_falsy [OF assms]
  by (simp add: base_new_ChatRepository_complete_def base_new_ChatRepository_complete_body_def
      log_operation_def)

lemma base_new_embed_missing_credential:
  assumes "api_key self = Attr k" and "falsy k"
  shows "base_new_EmbeddingRepository_embed self Positional fetch request
     = ([], Inl (LLM ConfigurationError (''API key not configured for '' @ provider_name self)
                   (provider_name self) None None))"
  using validate_configuration_falsy [OF assms]
  by (simp add: base_new_EmbeddingRepository_embed_def
      base_new_EmbeddingRepository_embed_body_def log_operation_def)

lemma base_new_synthesize_missing_credential:
  assumes "api_key self = Attr k" and "falsy k"
  shows "base_new_SpeechRepository_synthesize self Positional fetch request
     = ([], Inl (LLM ConfigurationError (''API key not configured for '' @ provider_name self)
                   (provider_name self) None None))"
  using validate_configuration_falsy [OF assms]
  by (simp add: base_new_SpeechRepository_synthesize_def
      base_new_SpeechRepository_synthesize_body_def log_operation_def)

lemma Gemini_missing_credential:
  assumes "api_key self = Attr k" and "falsy k"
  shows "GeminiChatRepository_complete self Positional fetch request
     = ([], Inl (LLM ConfigurationError (''API key not configured for '' @ provider_name self)
                   (provider_name self) None None))"
  using validate_configuration_falsy [OF assms]
  by (simp add: GeminiChatRepository_complete_def GeminiChatRepository_complete_body_def
      log_operation_def)

lemma decorated_Keyword:
  "base_new_ChatRepository_complete self Keyword fetch request
     = ([], Inl (TypeError ''bool object is not callable''))"
  "GeminiChatRepository_complete gself Keyword fetch request
     = ([], Inl (TypeError ''bool object is not callable''))"
  by (simp_all add: base_new_ChatRepository_complete_def GeminiChatRepository_complete_def
      log_operation_def)

text \<open>
  The constructor of \<open>base_new.py\<close> always binds \<open>api_key\<close>: to the argument, or to what
  \<open>_get_api_key()\<close> returned.
\<close>

lemma base_new_init_binds_api_key:
  "base_new_ChatRepository_init cls get_api_key p k = Inr self \<Longrightarrow> \<exists>v. api_key self = Attr v"
  by (auto simp: base_new_ChatRepository_init_def split: sum.splits if_splits)

subsection \<open>The two chat dispatchers\<close>

text \<open>
  What the statements of \<open>complete\<close> of \<open>base_new.py\<close> that follow the capability check do
  is what \<open>complete\<close> of \<open>base.py\<close> does, up to the class of the error of a validation
  failure: the same calls in the same order, the same response, a failure in the same
  cases, and the same outcome whenever the validator reports no problem.
\<close>

lemma complete_after_check_agrees:
  "fst (base_ChatRepository_complete self fetch request)
     = fst (base_new_ChatRepository_complete_after_check self fetch request)"
  "snd (base_ChatRepository_complete self fetch request) = Inr r
     \<longleftrightarrow> snd (base_new_ChatRepository_complete_after_check self fetch request) = Inr r"
  "isl (snd (base_ChatRepository_complete self fetch request))
     \<longleftrightarrow> isl (snd (base_new_ChatRepository_complete_after_check self fetch request))"
  "(\<And>errors. validate_chat_request (provider self) request = Inr errors \<Longrightarrow> errors = [])
     \<Longrightarrow> base_ChatRepository_complete self fetch request
       = base_new_ChatRepository_complete_after_check self fetch request"
  by (simp_all add: base_ChatRepository_complete_def
      base_new_ChatRepository_complete_after_check_def split: sum.splits prod.splits)

text \<open>
  C7 fails on the code. No call of \<open>complete\<close> of \<open>base_new.py\<close> gets to these
  statements: for every object, adapter, transport and request, the call makes no call
  of the adapter or of the transport, and raises. A request passed by keyword raises the
  \<open>TypeError\<close> of the logging decorator; a request passed by position raises what the
  configuration check raises, and under a valid configuration the \<open>TypeError\<close> of the
  capability check. Under a valid configuration \<open>complete\<close> of \<open>base.py\<close> does call the
  adapter: on a request it accepts, the response comes back; on a request it rejects, the
  \<open>ValueError\<close> leaves; when the transport fails, the adapter's \<open>ProviderError\<close> leaves.
\<close>

theorem complete_variants_differ:
  "base_new_ChatRepository_complete self style fetch request
     = ([], Inl (case style of
                   Keyword \<Rightarrow> TypeError ''bool object is not callable''
                 | Positional \<Rightarrow>
                     (case validate_configuration self of
                        Inl e \<Rightarrow> e
                      | Inr u \<Rightarrow> TypeError ''Instance and class checks can only be used with @runtime_checkable protocols'')))
   \<and> validate_configuration (example_repository (Attr (Some ''sk-1'')) []) = Inr ()
   \<and> base_ChatRepository_complete (example_repository (Attr (Some ''sk-1'')) [])
         (\<lambda>call. Inr ''raw'') example_request
       = ([Validate example_request, ConvertRequest example_request,
           Transport (example_call ''sk-1''), ConvertResponse ''raw'' example_request],
          Inr example_response)
   \<and> base_new_ChatRepository_complete (example_repository (Attr (Some ''sk-1'')) [])
         Positional (\<lambda>call. Inr ''raw'') example_request
       = ([], Inl (TypeError ''Instance and class checks can only be used with @runtime_checkable protocols''))
   \<and> base_ChatRepository_complete (example_repository (Attr (Some ''sk-1'')) [''bad''])
         (\<lambda>call. Inr ''raw'') example_request
       = ([Validate example_request], Inl (ValueError [''bad'']))
   \<and> base_new_ChatRepository_complete (example_repository (Attr (Some ''sk-1'')) [''bad''])
         Positional (\<lambda>call. Inr ''raw'') example_request
       = ([], Inl (TypeError ''Instance and class checks can only be used with @runtime_checkable protocols''))
   \<and> base_ChatRepository_complete (example_repository (Attr (Some ''sk-1'')) [])
         (\<lambda>call. Inl (OtherException ''ConnectionError'' ''refused'')) example_request
       = ([Validate example_request, ConvertRequest example_request,
           Transport (example_call ''sk-1''),
           ConvertError (OtherException ''ConnectionError'' ''refused'')],
          Inl (LLM ProviderError ''request failed'' ''example'' None
                 (Some (OtherException ''ConnectionError'' ''refused''))))
   \<and> base_new_ChatRepository_complete (example_repository (Attr (Some ''sk-1'')) [])
         Positional (\<lambda>call. Inl (OtherException ''ConnectionError'' ''refused''))
         example_request
       = ([], Inl (TypeError ''Instance and class checks can only be used with @runtime_checkable protocols''))"
proof (intro conjI)
  show "base_new_ChatRepository_complete self style fetch request
     = ([], Inl (case style of
                   Keyword \<Rightarrow> TypeError ''bool object is not callable''
                 | Positional \<Rightarrow>
                     (case validate_configuration self of
                        Inl e \<Rightarrow> e
                      | Inr u \<Rightarrow> TypeError ''Instance and class checks can only be used with @runtime_checkable protocols'')))"
    by (simp add: base_new_ChatRepository_complete_def
        base_new_ChatRepository_complete_body_def log_operation_def isinstance_Protocol_def
        split: call_style.splits sum.splits)
qed (simp_all add: base_ChatRepository_complete_def base_new_ChatRepository_complete_def
    base_new_ChatRepository_complete_body_def log_operation_def isinstance_Protocol_def
    example_defs example_request_def)

text \<open>So \<open>complete\<close> of \<open>base_new.py\<close> never returns a response.\<close>

lemma base_new_complete_never_returns:
  "fst (base_new_ChatRepository_complete self style fetch request) = []"
  "isl (snd (base_new_ChatRepository_complete self style fetch request))"
  by (simp_all add: base_new_ChatRepository_complete_def
      base_new_ChatRepository_complete_body_def log_operation_def isinstance_Protocol_def
      split: call_style.splits sum.splits)

subsection \<open>The request of the Gemini chat dispatcher\<close>

text \<open>
  The request that the \<open>try\<close> block of \<open>complete\<close> of \<open>gemini.py\<close> builds is a \<open>POST\<close> to
  \<open>{base_url}/{version}/models/{model}:generateContent\<close>, with the key of the object as
  the query parameter \<open>key\<close> and the headers of \<open>_get_headers\<close>, which are \<open>Content-Type\<close>
  and nothing else.
\<close>

lemma GeminiChatRepository_try_call:
  assumes "GeminiChatRepository_try self fetch request b = (tr, outcome)"
    and "Transport call \<in> set tr"
  shows "\<exists>hs k. get_headers self (api_key self) = Inr hs \<and> api_key self = Attr k
     \<and> call = \<lparr>url = base_url self @ ''/'' @ version self @ ''/models/''
                     @ ChatRequest.model request @ '':generateContent'',
                 method' = ''POST'', headers = hs, params = Some [(''key'', k)],
                 body = b, model = response_model self\<rparr>"
  using assms
  by (auto simp: GeminiChatRepository_try_def except_Exception_def raise_converted_def Let_def
      split: sum.splits attr.splits if_splits)

lemma GeminiChatRepository_try_sends:
  "Transport \<lparr>url = ''https://generativelanguage.googleapis.com'' @ ''/'' @ v
                    @ ''/models/'' @ ChatRequest.model request @ '':generateContent'',
              method' = ''POST'', headers = [(''Content-Type'', ''application/json'')],
              params = Some [(''key'', k)], body = b,
              model = ''GenerateContentResponse''\<rparr>
     \<in> set (fst (GeminiChatRepository_try (GeminiChatRepository_object p (Attr k) v)
          fetch request b))"
  by (simp add: GeminiChatRepository_try_def GeminiChatRepository_object_def
      GeminiBaseMixin_get_headers_def except_Exception_def raise_converted_def Let_def
      split: sum.splits)

text \<open>
  The constructor leaves \<open>api_key\<close> unassigned, so the configuration check of an object
  as constructed raises \<open>AttributeError\<close>.
\<close>

lemma GeminiChatRepository_init_api_key:
  "api_key (GeminiChatRepository_init k v g) = NoAttr"
  "provider (GeminiChatRepository_init k v g) = k"
  "validate_configuration (GeminiChatRepository_init k v g) = Inl (AttributeError ''api_key'')"
  by (simp_all add: GeminiChatRepository_init_def validate_configuration_def)

text \<open>
  C8 fails on the code: no call of \<open>complete\<close> of \<open>gemini.py\<close> gets to the \<open>try\<close> block.
  For every object, adapter, transport and request, and either way of passing the
  request, the call makes no call of the adapter, hands no request to the transport, and
  raises: the \<open>TypeError\<close> of the logging decorator for a request passed by keyword, what
  the configuration check raises for a request passed by position, and under a valid
  configuration the \<open>TypeError\<close> of the capability check.
\<close>

theorem Gemini_complete_sends_no_request:
  "GeminiChatRepository_complete self style fetch request
     = ([], Inl (case style of
                   Keyword \<Rightarrow> TypeError ''bool object is not callable''
                 | Positional \<Rightarrow>
                     (case validate_configuration self of
                        Inl e \<Rightarrow> e
                      | Inr u \<Rightarrow> TypeError ''Instance and class checks can only be used with @runtime_checkable protocols'')))
   \<and> Transport call \<notin> set (fst (GeminiChatRepository_complete self style fetch request))
   \<and> GeminiChatRepository_complete
         (GeminiChatRepository_object (example_provider []) (Attr (Some ''k1'')) ''v1'')
         Positional (\<lambda>call. Inr ''raw'') example_request
       = ([], Inl (TypeError ''Instance and class checks can only be used with @runtime_checkable protocols''))
   \<and> GeminiChatRepository_complete
         (GeminiChatRepository_object (example_provider []) NoAttr ''v1'')
         Positional (\<lambda>call. Inr ''raw'') example_request
       = ([], Inl (AttributeError ''api_key''))
   \<and> GeminiChatRepository_complete
         (GeminiChatRepository_object (example_provider []) (Attr (Some ''k1'')) ''v1'')
         Keyword (\<lambda>call. Inr ''raw'') example_request
       = ([], Inl (TypeError ''bool object is not callable''))"
  by (simp add: GeminiChatRepository_complete_def GeminiChatRepository_complete_body_def
      log_operation_def isinstance_Protocol_def validate_configuration_def
      GeminiChatRepository_object_def
      split: call_style.splits sum.splits)

subsection \<open>The dispatcher of base.py and the configuration\<close>

lemma ChatRepository_try_error:
  assumes "ChatRepository_try self fetch request b = (tr, Inl e)"
  shows "(\<exists>e0. ConvertError e0 \<in> set tr \<and> e = converted (provider self) e0)
     \<or> \<not> is_Exception e"
  using assms
  by (auto simp: ChatRepository_try_def except_Exception_def raise_converted_def Let_def
      split: sum.splits if_splits)

lemma base_complete_error:
  assumes "snd (base_ChatRepository_complete self fetch request) = Inl e"
  shows "(\<exists>errors. validate_chat_request (provider self) request = Inr errors
            \<and> errors \<noteq> [] \<and> e = ValueError errors)
     \<or> validate_chat_request (provider self) request = Inl e
     \<or> convert_chat_request (provider self) request = Inl e
     \<or> (\<exists>e0. ConvertError e0 \<in> set (fst (base_ChatRepository_complete self fetch request))
            \<and> e = converted (provider self) e0)
     \<or> \<not> is_Exception e"
proof (cases "validate_chat_request (provider self) request")
  case (Inl x)
  with assms show ?thesis by (simp add: base_ChatRepository_complete_def)
next
  case (Inr errors)
  show ?thesis
  proof (cases "errors = []")
    case False
    with Inr assms show ?thesis by (simp add: base_ChatRepository_complete_def)
  next
    case True
    show ?thesis
    proof (cases "convert_chat_request (provider self) request")
      case (Inl x)
      with Inr True assms show ?thesis by (simp add: base_ChatRepository_complete_def)
    next
      case b: (Inr b)
      obtain tr outcome where run: "ChatRepository_try self fetch request b = (tr, outcome)"
        by (cases "ChatRepository_try self fetch request b")
      with Inr True b assms have "outcome = Inl e"
        by (simp add: base_ChatRepository_complete_def)
      with run ChatRepository_try_error [of self fetch request b tr e]
      have "(\<exists>e0. ConvertError e0 \<in> set tr \<and> e = converted (provider self) e0)
          \<or> \<not> is_Exception e"
        by blast
      with Inr True b run show ?thesis
        by (auto simp: base_ChatRepository_complete_def)
    qed
  qed
qed

lemma ChatRepository_try_frame:
  assumes "get_headers self k = get_headers self (api_key self)"
  shows "ChatRepository_try (self\<lparr>api_key := k\<rparr>) fetch request b
       = ChatRepository_try self fetch request b"
  using assms by (simp add: ChatRepository_try_def Let_def split: sum.splits)

lemma base_complete_frame:
  assumes "get_headers self k = get_headers self (api_key self)"
  shows "base_ChatRepository_complete (self\<lparr>api_key := k\<rparr>) fetch request
       = base_ChatRepository_complete self fetch request"
  using ChatRepository_try_frame [OF assms]
  by (simp add: base_ChatRepository_complete_def split: sum.splits)

text \<open>
  C9, as far as it holds. The constructor of \<open>base.py\<close> binds the adapter and nothing
  else: \<open>api_key\<close> stays unassigned and no key is looked up. \<open>complete\<close> makes no
  configuration check: the key matters to a run only through the headers built from it,
  and an exception that leaves \<open>complete\<close> is the \<open>ValueError\<close> of a validation failure,
  an exception the adapter's validator or request converter raised, or what the adapter's
  \<open>convert_error\<close> gave for an exception of the \<open>try\<close> block. So a \<open>ConfigurationError\<close>
  leaves \<open>complete\<close> only when the adapter produced it.
\<close>

theorem base_ChatRepository_no_configuration_check:
  "api_key (base_ChatRepository_init cls p) = NoAttr
   \<and> provider (base_ChatRepository_init cls p) = p
   \<and> (get_headers self k = get_headers self (api_key self)
        \<longrightarrow> base_ChatRepository_complete (self\<lparr>api_key := k\<rparr>) fetch request
            = base_ChatRepository_complete self fetch request)
   \<and> (snd (base_ChatRepository_complete self fetch request) = Inl e
        \<and> isinstance e ConfigurationError
        \<longrightarrow> validate_chat_request (provider self) request = Inl e
            \<or> convert_chat_request (provider self) request = Inl e
            \<or> (\<exists>e0. ConvertError e0
                       \<in> set (fst (base_ChatRepository_complete self fetch request))
                     \<and> e = converted (provider self) e0))"
proof (intro conjI impI)
  show "api_key (base_ChatRepository_init cls p) = NoAttr"
    by (simp add: base_ChatRepository_init_def)
  show "provider (base_ChatRepository_init cls p) = p"
    by (simp add: base_ChatRepository_init_def)
  show "base_ChatRepository_complete (self\<lparr>api_key := k\<rparr>) fetch request
            = base_ChatRepository_complete self fetch request"
    if "get_headers self k = get_headers self (api_key self)"
    using that by (rule base_complete_frame)
  show "validate_chat_request (provider self) request = Inl e
            \<or> convert_chat_request (provider self) request = Inl e
            \<or> (\<exists>e0. ConvertError e0
                       \<in> set (fst (base_ChatRepository_complete self fetch request))
                     \<and> e = converted (provider self) e0)"
    if "snd (base_ChatRepository_complete self fetch request) = Inl e
        \<and> isinstance e ConfigurationError"
  proof -
    from that have "is_Exception e" by (cases e) simp_all
    with that base_complete_error [of self fetch request e] show ?thesis by auto
  qed
qed

text \<open>
  A run of each kind: a plain subclass whose key is bound to the empty string after
  construction behaves as with the key unassigned, and an adapter that classifies every
  failure as a \<open>ConfigurationError\<close> makes \<open>complete\<close> raise one.
\<close>

theorem base_ChatRepository_no_configuration_check_witness:
  "api_key (base_ChatRepository_init plain_class (example_provider [])) = NoAttr
   \<and> get_headers (base_ChatRepository_init plain_class (example_provider [])) (Attr (Some []))
       = get_headers (base_ChatRepository_init plain_class (example_provider []))
           (api_key (base_ChatRepository_init plain_class (example_provider [])))
   \<and> base_ChatRepository_complete
         ((base_ChatRepository_init plain_class (example_provider []))
            \<lparr>api_key := Attr (Some [])\<rparr>)
         (\<lambda>call. Inr ''raw'') example_request
       = base_ChatRepository_complete (base_ChatRepository_init plain_class (example_provider []))
         (\<lambda>call. Inr ''raw'') example_request
   \<and> snd (base_ChatRepository_complete
         (base_ChatRepository_init plain_class
            ((example_provider [])
               \<lparr>convert_error :=
                  \<lambda>e. Inr (LLM ConfigurationError ''not configured'' ''example'' None (Some e))\<rparr>))
         (\<lambda>call. Inr ''raw'') example_request)
       = Inl (LLM ConfigurationError ''not configured'' ''example'' None
                (Some (NotImplementedError ''Headers not implemented for example'')))
   \<and> isinstance (LLM ConfigurationError ''not configured'' ''example'' None
                (Some (NotImplementedError ''Headers not implemented for example'')))
         ConfigurationError
   \<and> (\<exists>e0. ConvertError e0
         \<in> set (fst (base_ChatRepository_complete
              (base_ChatRepository_init plain_class
                 ((example_provider [])
                    \<lparr>convert_error :=
                       \<lambda>e. Inr (LLM ConfigurationError ''not configured'' ''example'' None
                                  (Some e))\<rparr>))
              (\<lambda>call. Inr ''raw'') example_request))
       \<and> LLM ConfigurationError ''not configured'' ''example'' None
            (Some (NotImplementedError ''Headers not implemented for example''))
         = converted
             ((example_provider [])
                \<lparr>convert_error :=
                   \<lambda>e. Inr (LLM ConfigurationError ''not configured'' ''example'' None
                              (Some e))\<rparr>)
             e0)"
proof -
  let ?self = "base_ChatRepository_init plain_class (example_provider [])"
  let ?p = "(example_provider [])
     \<lparr>convert_error :=
        \<lambda>e. Inr (LLM ConfigurationError ''not configured'' ''example'' None (Some e))\<rparr>"
  let ?cfg = "base_ChatRepository_init plain_class ?p"
  let ?fetch = "\<lambda>call :: string make_request. (Inr ''raw'' :: exn + string)"
  let ?e = "LLM ConfigurationError ''not configured'' ''example'' None
     (Some (NotImplementedError ''Headers not implemented for example''))"
  note defs = base_ChatRepository_init_def plain_class_def BaseLLMRepository_get_headers_def
    example_provider_def
  have h: "get_headers ?self (Attr (Some [])) = get_headers ?self (api_key ?self)"
    by (simp add: defs)
  have out: "snd (base_ChatRepository_complete ?cfg ?fetch example_request) = Inl ?e"
    by (simp add: base_ChatRepository_complete_def ChatRepository_try_def
        except_Exception_def raise_converted_def converted_def defs)
  have cls: "isinstance ?e ConfigurationError" by simp
  have v: "validate_chat_request (provider ?cfg) example_request \<noteq> Inl ?e"
    and c: "convert_chat_request (provider ?cfg) example_request \<noteq> Inl ?e"
    by (simp_all add: defs)
  have p: "provider ?cfg = ?p" by (simp add: base_ChatRepository_init_def)
  note thm1 = base_ChatRepository_no_configuration_check
    [of plain_class "example_provider []" ?self "Attr (Some [])" ?fetch example_request]
  note thm2 = base_ChatRepository_no_configuration_check
    [of plain_class ?p ?cfg "Attr None" ?fetch example_request ?e]
  from thm1 h have 1: "api_key ?self = NoAttr"
    and 2: "base_ChatRepository_complete (?self\<lparr>api_key := Attr (Some [])\<rparr>) ?fetch
        example_request
      = base_ChatRepository_complete ?self ?fetch example_request"
    by blast+
  from thm2 out cls v c
  have 3: "\<exists>e0. ConvertError e0
         \<in> set (fst (base_ChatRepository_complete ?cfg ?fetch example_request))
       \<and> ?e = converted (provider ?cfg) e0"
    by blast
  from 1 h 2 out cls 3 show ?thesis unfolding p by blast
qed

text \<open>
  As the specification words it, the property fails: with such an adapter, \<open>complete\<close> of \<open>base.py\<close> raises a
  \<open>ConfigurationError\<close>. Here the object is an \<open>OpenAIChatRepository\<close> as its constructor
  leaves it, and the adapter classifies the failure to build the headers.
\<close>

theorem base_ChatRepository_ConfigurationError_counterexample:
  "snd (base_ChatRepository_complete
         (base_ChatRepository_init (OpenAIChatRepository_class None)
            ((example_provider [])
               \<lparr>convert_error :=
                  \<lambda>e. Inr (LLM ConfigurationError ''not configured'' ''example'' None (Some e))\<rparr>))
         (\<lambda>call. Inr ''raw'') example_request)
     = Inl (LLM ConfigurationError ''not configured'' ''example'' None
              (Some (AttributeError ''api_key'')))
   \<and> isinstance (LLM ConfigurationError ''not configured'' ''example'' None
              (Some (AttributeError ''api_key''))) ConfigurationError"
  by (simp add: base_ChatRepository_complete_def ChatRepository_try_def except_Exception_def
      raise_converted_def converted_def base_ChatRepository_init_def OpenAIChatRepository_class_def
      OpenAIBaseMixin_get_headers_def example_provider_def)

end
